theory Spec2Isabelle
  imports Complex_Main
begin

section \<open>The tables of the migration\<close>

text \<open>
  The four tables of the migration script, each as a list of rows in the order in which
  the store scans them. A \<^verbatim>\<open>UUID\<close> is a natural number. A \<^verbatim>\<open>DECIMAL(3,2)\<close>
  value is held as its integer number of hundredths, so \<open>343\<close> is \<^verbatim>\<open>3.43\<close>;
  \<^verbatim>\<open>INTEGER\<close> is a mathematical integer whose 32-bit range is checked where the
  code adds. Columns that no function of the script reads (timestamps, phone number,
  percentages, module code and name, dates) are left out.
\<close>

type_synonym uuid = nat

datatype module_type = Compulsory | Elective | Optional

datatype attempt_type = First_attempt | Repeat | Dropped

record profile_row =
  pr_id :: uuid
  pr_user_id :: uuid
  full_name :: string
  university_name :: string
  course_name :: string
  registration_number :: string

record grading_row =
  gc_user_id :: uuid
  grade_name :: string
  gpa_value :: int

record semester_row =
  s_id :: uuid
  s_user_id :: uuid
  semester_name :: string
  academic_year :: string
  is_current :: bool

record module_row =
  m_semester_id :: uuid
  m_user_id :: uuid
  credit_hours :: int
  grade :: string
  m_module_type :: module_type
  m_attempt_type :: attempt_type

record db =
  profiles :: "profile_row list"
  grading_criteria :: "grading_row list"
  semesters :: "semester_row list"
  modules :: "module_row list"

section \<open>calculate_gpa\<close>

text \<open>
  The errors the store raises in what follows: \<^verbatim>\<open>integer out of range\<close>,
  \<^verbatim>\<open>numeric field overflow\<close> and \<^verbatim>\<open>infinite recursion detected in policy\<close>.
\<close>

datatype pg_error = Integer_out_of_range | Numeric_field_overflow | Infinite_recursion_in_policy

text \<open>The range of the \<^verbatim>\<open>INTEGER\<close> type; an addition that leaves it raises.\<close>

definition int4_ok :: "int \<Rightarrow> bool" where
  "int4_ok n \<longleftrightarrow> - 2147483648 \<le> n \<and> n \<le> 2147483647"

text \<open>
  The query of the \<^verbatim>\<open>FOR\<close> loop: \<^verbatim>\<open>modules m JOIN semesters s ON m.semester_id = s.id\<close>
  as a nested loop over both tables, then the \<^verbatim>\<open>WHERE\<close> clause. The optional
  parameter \<^verbatim>\<open>p_semester_id\<close> is \<open>None\<close> for \<^verbatim>\<open>NULL\<close>.
\<close>

definition modules_join_semesters :: "db \<Rightarrow> module_row list" where
  "modules_join_semesters d =
     concat (map (\<lambda>m. map (\<lambda>s. m) (filter (\<lambda>s. m_semester_id m = s_id s) (semesters d)))
                 (modules d))"

definition gpa_where :: "uuid \<Rightarrow> uuid option \<Rightarrow> module_row \<Rightarrow> bool" where
  "gpa_where p_user_id p_semester_id m \<longleftrightarrow>
     m_user_id m = p_user_id
     \<and> (p_semester_id = None \<or> Some (m_semester_id m) = p_semester_id)
     \<and> m_attempt_type m \<noteq> Dropped"

definition gpa_query :: "db \<Rightarrow> uuid \<Rightarrow> uuid option \<Rightarrow> module_row list" where
  "gpa_query d p_user_id p_semester_id =
     filter (gpa_where p_user_id p_semester_id) (modules_join_semesters d)"

text \<open>
  \<^verbatim>\<open>SELECT gc.gpa_value INTO gpa_value ... LIMIT 1\<close>: the first matching row in scan
  order, and \<^verbatim>\<open>NULL\<close> (here \<open>None\<close>) when no row matches, since \<^verbatim>\<open>INTO\<close> without
  \<^verbatim>\<open>STRICT\<close> assigns nulls on an empty result.
\<close>

definition select_gpa_value :: "db \<Rightarrow> uuid \<Rightarrow> string \<Rightarrow> int option" where
  "select_gpa_value d p_user_id g =
     (case filter (\<lambda>gc. gc_user_id gc = p_user_id \<and> grade_name gc = g) (grading_criteria d) of
        [] \<Rightarrow> None
      | gc # _ \<Rightarrow> Some (gpa_value gc))"

text \<open>
  The loop body over the rows of the query, with the two accumulators
  \<^verbatim>\<open>total_grade_points\<close> (an unconstrained \<^verbatim>\<open>DECIMAL\<close>, in hundredths) and
  \<^verbatim>\<open>total_credit_hours\<close> (an \<^verbatim>\<open>INTEGER\<close>).
\<close>

fun gpa_loop :: "db \<Rightarrow> uuid \<Rightarrow> module_row list \<Rightarrow> int \<times> int \<Rightarrow> pg_error + int \<times> int" where
  "gpa_loop d p_user_id [] acc = Inr acc"
| "gpa_loop d p_user_id (module_record # rest) (total_grade_points, total_credit_hours) =
     (case select_gpa_value d p_user_id (grade module_record) of
        None \<Rightarrow> gpa_loop d p_user_id rest (total_grade_points, total_credit_hours)
      | Some v \<Rightarrow>
          if int4_ok (total_credit_hours + credit_hours module_record)
          then gpa_loop d p_user_id rest
                 (total_grade_points + v * credit_hours module_record,
                  total_credit_hours + credit_hours module_record)
          else Inl Integer_out_of_range)"

text \<open>
  The integer nearest to \<open>a / b\<close>, a tie going away from zero: the rounding that both
  the division of two \<^verbatim>\<open>numeric\<close> values and \<^verbatim>\<open>ROUND\<close> apply at their last kept
  digit.
\<close>

definition round_half_away_div :: "int \<Rightarrow> int \<Rightarrow> int" where
  "round_half_away_div a b = sgn a * sgn b * ((2 * \<bar>a\<bar> + \<bar>b\<bar>) div (2 * \<bar>b\<bar>))"

text \<open>
  A \<^verbatim>\<open>numeric\<close> value is stored in digits of base 10000, grouped from the decimal
  point. Its weight is the position of its first nonzero digit (0 for the group just
  left of the point, \<open>-1\<close> for the group just right of it), and the weight of zero is 0.
  For a positive integer \<open>n\<close>:
\<close>

function digits_weight :: "int \<Rightarrow> int" where
  "digits_weight n = (if n < 10000 then 0 else digits_weight (n div 10000) + 1)"
  by pat_completeness auto
termination
  by (relation "measure nat") auto

function digits_first :: "int \<Rightarrow> int" where
  "digits_first n = (if n < 10000 then n else digits_first (n div 10000))"
  by pat_completeness auto
termination
  by (relation "measure nat") auto

text \<open>For a value of \<open>h\<close> hundredths, whose fraction fills half of one group:\<close>

definition numeric_weight :: "int \<Rightarrow> int" where
  "numeric_weight h =
     (if 100 \<le> \<bar>h\<bar> then digits_weight (\<bar>h\<bar> div 100)
      else if h = 0 then 0 else - 1)"

definition numeric_first_digit :: "int \<Rightarrow> int" where
  "numeric_first_digit h =
     (if 100 \<le> \<bar>h\<bar> then digits_first (\<bar>h\<bar> div 100)
      else (\<bar>h\<bar> mod 100) * 100)"

text \<open>
  The scale of a quotient of two \<^verbatim>\<open>numeric\<close> values, both given in hundredths: the
  store estimates the weight of the quotient from the weights and first digits of the
  operands, keeps sixteen significant digits, at least as many decimal places as either
  operand displays (2 for the grade points, 0 for the credit hours), and at most 1000.
\<close>

definition select_div_scale :: "int \<Rightarrow> int \<Rightarrow> int" where
  "select_div_scale var1 var2 =
     (let qweight = numeric_weight var1 - numeric_weight var2
                    - (if numeric_first_digit var1 \<le> numeric_first_digit var2 then 1 else 0);
          rscale = 16 - qweight * 4
      in min 1000 (max 0 (max 0 (max 2 rscale))))"

text \<open>
  \<^verbatim>\<open>total_grade_points / total_credit_hours\<close>: the quotient of \<open>a\<close> hundredths by the
  integer \<open>b\<close>, rounded at the scale above. The result is the pair of the digits, as an
  integer number of units of \<open>10\<^sup>-\<^sup>r\<close>, and the scale \<open>r\<close>.
\<close>

definition numeric_div :: "int \<Rightarrow> int \<Rightarrow> int \<times> int" where
  "numeric_div a b =
     (let rscale = select_div_scale a (100 * b)
      in (round_half_away_div (a * 10 ^ nat (rscale - 2)) b, rscale))"

text \<open>\<^verbatim>\<open>ROUND(q, 2)\<close> of such a quotient, in hundredths.\<close>

definition numeric_round_2 :: "int \<times> int \<Rightarrow> int" where
  "numeric_round_2 q =
     (case q of (n, rscale) \<Rightarrow> round_half_away_div n (10 ^ nat (rscale - 2)))"

definition calculate_gpa :: "db \<Rightarrow> uuid \<Rightarrow> uuid option \<Rightarrow> pg_error + int" where
  "calculate_gpa d p_user_id p_semester_id =
     (case gpa_loop d p_user_id (gpa_query d p_user_id p_semester_id) (0, 0) of
        Inl e \<Rightarrow> Inl e
      | Inr (total_grade_points, total_credit_hours) \<Rightarrow>
          if total_credit_hours = 0 then Inr 0
          else Inr (numeric_round_2 (numeric_div total_grade_points total_credit_hours)))"

section \<open>The reference computation of the specification\<close>

text \<open>
  The constraints that the migration puts on the tables: \<^verbatim>\<open>semesters.id\<close> is a
  primary key and \<^verbatim>\<open>modules.semester_id\<close> references it; \<^verbatim>\<open>gpa_value\<close> is a
  \<^verbatim>\<open>DECIMAL(3,2)\<close>, between \<^verbatim>\<open>-9.99\<close> and \<^verbatim>\<open>9.99\<close>; \<^verbatim>\<open>credit_hours\<close> is an
  \<^verbatim>\<open>INTEGER\<close>.
\<close>

definition schema_ok :: "db \<Rightarrow> bool" where
  "schema_ok d \<longleftrightarrow>
     distinct (map s_id (semesters d))
     \<and> list_all (\<lambda>m. list_ex (\<lambda>s. s_id s = m_semester_id m) (semesters d)) (modules d)
     \<and> list_all (\<lambda>gc. - 999 \<le> gpa_value gc \<and> gpa_value gc \<le> 999) (grading_criteria d)
     \<and> list_all (\<lambda>m. int4_ok (credit_hours m)) (modules d)"

text \<open>
  The specification's wording, kept apart from the code above: the user's grading scale
  as a dictionary from label to grade point (a decimal, here a rational), the eligible
  modules, the two totals, and rounding to two places with ties away from zero.
\<close>

definition user_scale :: "db \<Rightarrow> uuid \<Rightarrow> (string \<rightharpoonup> rat)" where
  "user_scale d u =
     map_of (map (\<lambda>gc. (grade_name gc, rat_of_int (gpa_value gc) / 100))
                 (filter (\<lambda>gc. gc_user_id gc = u) (grading_criteria d)))"

definition in_scope :: "uuid option \<Rightarrow> module_row \<Rightarrow> bool" where
  "in_scope sem m = (case sem of None \<Rightarrow> True | Some s \<Rightarrow> m_semester_id m = s)"

definition eligible_modules :: "db \<Rightarrow> uuid \<Rightarrow> uuid option \<Rightarrow> module_row list" where
  "eligible_modules d u sem =
     filter (\<lambda>m. m_user_id m = u \<and> in_scope sem m \<and> m_attempt_type m \<noteq> Dropped
                 \<and> user_scale d u (grade m) \<noteq> None)
            (modules d)"

definition grade_point :: "db \<Rightarrow> uuid \<Rightarrow> module_row \<Rightarrow> rat" where
  "grade_point d u m = (case user_scale d u (grade m) of None \<Rightarrow> 0 | Some p \<Rightarrow> p)"

definition round_half_away_2 :: "rat \<Rightarrow> rat" where
  "round_half_away_2 x =
     (if 0 \<le> x then rat_of_int \<lfloor>x * 100 + 1 / 2\<rfloor> / 100
      else - (rat_of_int \<lfloor>- x * 100 + 1 / 2\<rfloor> / 100))"

definition reference_gpa :: "db \<Rightarrow> uuid \<Rightarrow> uuid option \<Rightarrow> rat" where
  "reference_gpa d u sem =
     (let ms = eligible_modules d u sem;
          total_grade_points = (\<Sum>m\<leftarrow>ms. grade_point d u m * rat_of_int (credit_hours m));
          total_credit_hours = (\<Sum>m\<leftarrow>ms. credit_hours m)
      in if total_credit_hours = 0 then 0
         else round_half_away_2 (total_grade_points / rat_of_int total_credit_hours))"

text \<open>The decimal that a number of hundredths stands for.\<close>

definition decimal_of :: "int \<Rightarrow> rat" where
  "decimal_of h = rat_of_int h / 100"

text \<open>
  The running total of credit hours, started at \<open>acc\<close>, stays inside the
  \<^verbatim>\<open>INTEGER\<close> range at every addition.
\<close>

fun credits_fit :: "int \<Rightarrow> int list \<Rightarrow> bool" where
  "credits_fit acc [] = True"
| "credits_fit acc (c # cs) = (int4_ok (acc + c) \<and> credits_fit (acc + c) cs)"

text \<open>The grade-point values of a user's grading scale, one per row.\<close>

definition scale_values :: "db \<Rightarrow> uuid \<Rightarrow> int list" where
  "scale_values d u = map gpa_value (filter (\<lambda>gc. gc_user_id gc = u) (grading_criteria d))"

section \<open>Row-level security and the remote procedure\<close>

text \<open>
  A \<^verbatim>\<open>SELECT\<close> on \<^verbatim>\<open>modules\<close>, \<^verbatim>\<open>grading_criteria\<close> or \<^verbatim>\<open>semesters\<close> by the
  signed-in user \<open>auth_uid\<close> passes the policy \<^verbatim>\<open>USING (auth.uid() = user_id)\<close>.
\<close>

definition select_modules :: "uuid \<Rightarrow> db \<Rightarrow> module_row list" where
  "select_modules auth_uid d = filter (\<lambda>m. auth_uid = m_user_id m) (modules d)"

definition select_grading_criteria :: "uuid \<Rightarrow> db \<Rightarrow> grading_row list" where
  "select_grading_criteria auth_uid d =
     filter (\<lambda>gc. auth_uid = gc_user_id gc) (grading_criteria d)"

definition select_semesters :: "uuid \<Rightarrow> db \<Rightarrow> semester_row list" where
  "select_semesters auth_uid d = filter (\<lambda>s. auth_uid = s_user_id s) (semesters d)"

text \<open>
  The table \<^verbatim>\<open>profiles\<close> has two \<^verbatim>\<open>SELECT\<close> policies. The first compares
  \<^verbatim>\<open>auth.uid()\<close> with the row; the second, for the leaderboard, holds a subquery on
  \<^verbatim>\<open>profiles\<close> itself. For every \<^verbatim>\<open>SELECT\<close> policy of a table, the tables that its
  \<^verbatim>\<open>USING\<close> expression queries:
\<close>

datatype table_name = Profiles | Grading_criteria | Semesters | Modules

definition select_policy_queries :: "table_name \<Rightarrow> table_name list list" where
  "select_policy_queries t =
     (case t of
        Profiles \<Rightarrow> [[], [Profiles]]
      | Grading_criteria \<Rightarrow> [[]]
      | Semesters \<Rightarrow> [[]]
      | Modules \<Rightarrow> [[]])"

text \<open>
  The store applies the policies of a table to every query on it, also to the subquery
  inside a policy. A policy that queries its own table is therefore expanded without
  end, and the store raises for every query on that table by a signed-in user, whatever
  the rows. No policy of the migration reaches its own table through another one.
\<close>

definition policy_recursion :: "table_name \<Rightarrow> bool" where
  "policy_recursion t \<longleftrightarrow> t \<in> set (concat (select_policy_queries t))"

text \<open>
  A \<^verbatim>\<open>SELECT\<close> on \<^verbatim>\<open>profiles\<close> by the signed-in user with the filter \<open>wh\<close> of the
  request.
\<close>

definition select_profiles ::
  "uuid \<Rightarrow> db \<Rightarrow> (profile_row \<Rightarrow> bool) \<Rightarrow> pg_error + profile_row list" where
  "select_profiles auth_uid d wh =
     (if policy_recursion Profiles then Inl Infinite_recursion_in_policy
      else Inr (filter
                  (\<lambda>p. (auth_uid = pr_user_id p
                        \<or> list_ex (\<lambda>q. pr_user_id q = auth_uid
                                        \<and> university_name q = university_name p
                                        \<and> course_name q = course_name p) (profiles d))
                       \<and> wh p)
                  (profiles d)))"

text \<open>
  \<^verbatim>\<open>supabase.rpc("calculate_gpa", ...)\<close> as called by the signed-in user \<open>auth_uid\<close>.
  The function is declared \<^verbatim>\<open>SECURITY DEFINER\<close>: its body runs with the rights of its
  owner, the policies above are not applied to its queries, and the body never reads
  \<^verbatim>\<open>auth.uid()\<close>. The response carries \<^verbatim>\<open>data\<close>, which is \<^verbatim>\<open>null\<close> when the call
  raised.
\<close>

definition rpc_calculate_gpa :: "uuid \<Rightarrow> db \<Rightarrow> uuid \<Rightarrow> uuid option \<Rightarrow> pg_error + int" where
  "rpc_calculate_gpa auth_uid d p_user_id p_semester_id = calculate_gpa d p_user_id p_semester_id"

definition rpc_data :: "uuid \<Rightarrow> db \<Rightarrow> uuid \<Rightarrow> int option" where
  "rpc_data auth_uid d p_user_id =
     (case rpc_calculate_gpa auth_uid d p_user_id None of Inl e \<Rightarrow> None | Inr g \<Rightarrow> Some g)"

section \<open>get_leaderboard\<close>

text \<open>
  \<^verbatim>\<open>ORDER BY p.full_name\<close>: the order of the names by their characters, the shorter
  name first among a name and its extensions. Rows with equal names keep their order.
\<close>

fun text_le :: "string \<Rightarrow> string \<Rightarrow> bool" where
  "text_le [] ys = True"
| "text_le (x # xs) [] = False"
| "text_le (x # xs) (y # ys) =
     ((of_char x :: nat) < of_char y \<or> (x = y \<and> text_le xs ys))"

fun insert_by_full_name :: "profile_row \<Rightarrow> profile_row list \<Rightarrow> profile_row list" where
  "insert_by_full_name p [] = [p]"
| "insert_by_full_name p (q # qs) =
     (if text_le (full_name p) (full_name q) then p # q # qs
      else q # insert_by_full_name p qs)"

definition order_by_full_name :: "profile_row list \<Rightarrow> profile_row list" where
  "order_by_full_name rows = foldr insert_by_full_name rows []"

record leaderboard_row =
  lb_id :: uuid
  lb_full_name :: string
  lb_registration_number :: string
  lb_gpa :: int

text \<open>
  The loop over the selected profiles. The function is \<^verbatim>\<open>SECURITY DEFINER\<close>, so no
  policy applies to its query. An error of \<open>calculate_gpa\<close> ends the call; the
  assignment to \<^verbatim>\<open>calculated_gpa DECIMAL(3,2)\<close> raises when the value does not fit.
\<close>

fun get_leaderboard_loop :: "db \<Rightarrow> profile_row list \<Rightarrow> pg_error + leaderboard_row list" where
  "get_leaderboard_loop d [] = Inr []"
| "get_leaderboard_loop d (profile_record # rest) =
     (case calculate_gpa d (pr_user_id profile_record) None of
        Inl e \<Rightarrow> Inl e
      | Inr calculated_gpa \<Rightarrow>
          if calculated_gpa < - 999 \<or> 999 < calculated_gpa then Inl Numeric_field_overflow
          else (case get_leaderboard_loop d rest of
                  Inl e \<Rightarrow> Inl e
                | Inr rows \<Rightarrow>
                    Inr (\<lparr>lb_id = pr_id profile_record, lb_full_name = full_name profile_record,
                          lb_registration_number = registration_number profile_record,
                          lb_gpa = calculated_gpa\<rparr> # rows)))"

text \<open>The limit and the offset are not negative.\<close>

definition get_leaderboard ::
  "db \<Rightarrow> string \<Rightarrow> string \<Rightarrow> nat \<Rightarrow> nat \<Rightarrow> pg_error + leaderboard_row list" where
  "get_leaderboard d p_university_name p_course_name p_limit p_offset =
     get_leaderboard_loop d
       (take p_limit (drop p_offset
          (order_by_full_name
             (filter (\<lambda>p. university_name p = p_university_name \<and> course_name p = p_course_name)
                     (profiles d)))))"

section \<open>AddSemesterDialog.handleSubmit\<close>

text \<open>
  A store call resolves to a response with an \<^verbatim>\<open>error\<close> field (\<open>None\<close> for
  \<^verbatim>\<open>null\<close>); it does not throw. Whether a call fails is decided outside the program,
  so the two responses are arguments of the model, as is the identifier the store
  generates for the new row. A failed statement changes no row.
\<close>

datatype js_error = Error string

record semester_form =
  f_semester_name :: string
  f_academic_year :: string
  f_is_current :: bool

definition update_is_current_false :: "uuid \<Rightarrow> semester_row list \<Rightarrow> semester_row list" where
  "update_is_current_false userId rows =
     map (\<lambda>s. if s_user_id s = userId then s\<lparr>is_current := False\<rparr> else s) rows"

definition insert_semester ::
  "uuid \<Rightarrow> uuid \<Rightarrow> semester_form \<Rightarrow> semester_row list \<Rightarrow> semester_row list" where
  "insert_semester new_id userId formData rows =
     rows @ [\<lparr>s_id = new_id, s_user_id = userId, semester_name = f_semester_name formData,
              academic_year = f_academic_year formData, is_current = f_is_current formData\<rparr>]"

text \<open>
  The response of the \<^verbatim>\<open>update\<close> is awaited and dropped; only the \<^verbatim>\<open>error\<close> of the
  \<^verbatim>\<open>insert\<close> is tested and thrown. The result is the error shown to the user, if any,
  and the table afterwards.
\<close>

definition handleSubmit ::
  "js_error option \<Rightarrow> js_error option \<Rightarrow> uuid \<Rightarrow> uuid \<Rightarrow> semester_form \<Rightarrow> semester_row list
   \<Rightarrow> js_error option \<times> semester_row list" where
  "handleSubmit update_error insert_error new_id userId formData rows =
     (let rows1 = (if f_is_current formData \<and> update_error = None
                   then update_is_current_false userId rows else rows)
      in case insert_error of
           None \<Rightarrow> (None, insert_semester new_id userId formData rows1)
         | Some error \<Rightarrow> (Some error, rows1))"

definition current_semesters :: "uuid \<Rightarrow> semester_row list \<Rightarrow> semester_row list" where
  "current_semesters userId rows = filter (\<lambda>s. s_user_id s = userId \<and> is_current s) rows"

section \<open>GradingCriteriaSetup.saveCriteria\<close>

record criteria_form =
  c_grade_name :: string
  c_gpa_value :: string
  c_min_percentage :: string
  c_max_percentage :: string

text \<open>
  \<^verbatim>\<open>String.prototype.trim\<close> on strings of 8-bit characters: tab, line feed, vertical
  tab, form feed, carriage return, space and no-break space are white space.
\<close>

definition js_whitespace :: "char \<Rightarrow> bool" where
  "js_whitespace c \<longleftrightarrow>
     c \<in> set [CHR 0x09, CHR 0x0A, CHR 0x0B, CHR 0x0C, CHR 0x0D, CHR 0x20, CHR 0xA0]"

definition js_trim :: "string \<Rightarrow> string" where
  "js_trim s = rev (dropWhile js_whitespace (rev (dropWhile js_whitespace s)))"

definition is_digit :: "char \<Rightarrow> bool" where
  "is_digit c \<longleftrightarrow> c \<in> set ''0123456789''"

definition strip_sign :: "string \<Rightarrow> string" where
  "strip_sign s =
     (case s of [] \<Rightarrow> [] | c # r \<Rightarrow> if c = CHR ''+'' \<or> c = CHR ''-'' then r else s)"

text \<open>
  \<^verbatim>\<open>isNaN(parseFloat(s))\<close>: \<^verbatim>\<open>parseFloat\<close> skips leading white space and reads the
  longest prefix that is a decimal literal; the result is \<^verbatim>\<open>NaN\<close> exactly when there
  is no such prefix, that is when, after an optional sign, the text starts with neither
  \<^verbatim>\<open>Infinity\<close>, nor a digit, nor a point followed by a digit.
\<close>

definition parseFloat_isNaN :: "string \<Rightarrow> bool" where
  "parseFloat_isNaN s =
     (let t = strip_sign (dropWhile js_whitespace s)
      in \<not> (take 8 t = ''Infinity''
             \<or> (case t of
                   [] \<Rightarrow> False
                 | c # r \<Rightarrow> is_digit c
                           \<or> (c = CHR ''.'' \<and> (case r of [] \<Rightarrow> False | c2 # _ \<Rightarrow> is_digit c2)))))"

definition valid_criteria :: "criteria_form \<Rightarrow> bool" where
  "valid_criteria c \<longleftrightarrow>
     js_trim (c_grade_name c) \<noteq> [] \<and> js_trim (c_gpa_value c) \<noteq> []
     \<and> \<not> parseFloat_isNaN (c_gpa_value c)"

text \<open>
  The row sent for a form entry. The value that the \<^verbatim>\<open>DECIMAL(3,2)\<close> column keeps
  for \<^verbatim>\<open>parseFloat(c.gpa_value)\<close> is the argument \<open>stored_value\<close>.
\<close>

definition criteria_row :: "(string \<Rightarrow> int) \<Rightarrow> uuid \<Rightarrow> criteria_form \<Rightarrow> grading_row" where
  "criteria_row stored_value userId c =
     \<lparr>gc_user_id = userId, grade_name = js_trim (c_grade_name c),
      gpa_value = stored_value (c_gpa_value c)\<rparr>"

definition saveCriteria ::
  "(string \<Rightarrow> int) \<Rightarrow> js_error option \<Rightarrow> uuid \<Rightarrow> criteria_form list \<Rightarrow> grading_row list
   \<Rightarrow> js_error option \<times> grading_row list" where
  "saveCriteria stored_value insert_error userId criteria rows =
     (let validCriteria = filter valid_criteria criteria
      in if length validCriteria = 0
         then (Some (Error ''Please add at least one valid grading criteria''), rows)
         else case insert_error of
                Some error \<Rightarrow> (Some error, rows)
              | None \<Rightarrow> (None, rows @ map (criteria_row stored_value userId) validCriteria))"

definition defaultCriteria :: "criteria_form list" where
  "defaultCriteria =
     [\<lparr>c_grade_name = ''A+'', c_gpa_value = ''4.00'', c_min_percentage = ''90'', c_max_percentage = ''100''\<rparr>,
      \<lparr>c_grade_name = ''A'', c_gpa_value = ''3.70'', c_min_percentage = ''85'', c_max_percentage = ''89''\<rparr>,
      \<lparr>c_grade_name = ''A-'', c_gpa_value = ''3.30'', c_min_percentage = ''80'', c_max_percentage = ''84''\<rparr>,
      \<lparr>c_grade_name = ''B+'', c_gpa_value = ''3.00'', c_min_percentage = ''75'', c_max_percentage = ''79''\<rparr>,
      \<lparr>c_grade_name = ''B'', c_gpa_value = ''2.70'', c_min_percentage = ''70'', c_max_percentage = ''74''\<rparr>,
      \<lparr>c_grade_name = ''B-'', c_gpa_value = ''2.30'', c_min_percentage = ''65'', c_max_percentage = ''69''\<rparr>,
      \<lparr>c_grade_name = ''C+'', c_gpa_value = ''2.00'', c_min_percentage = ''60'', c_max_percentage = ''64''\<rparr>,
      \<lparr>c_grade_name = ''C'', c_gpa_value = ''1.70'', c_min_percentage = ''55'', c_max_percentage = ''59''\<rparr>,
      \<lparr>c_grade_name = ''D'', c_gpa_value = ''1.00'', c_min_percentage = ''50'', c_max_percentage = ''54''\<rparr>,
      \<lparr>c_grade_name = ''F'', c_gpa_value = ''0.00'', c_min_percentage = ''0'', c_max_percentage = ''49''\<rparr>]"

text \<open>The labels of a user's scale, and the labels a form would add.\<close>

definition user_labels :: "uuid \<Rightarrow> grading_row list \<Rightarrow> string list" where
  "user_labels userId rows = map grade_name (filter (\<lambda>gc. gc_user_id gc = userId) rows)"

definition new_labels :: "criteria_form list \<Rightarrow> string list" where
  "new_labels criteria = map (\<lambda>c. js_trim (c_grade_name c)) (filter valid_criteria criteria)"

section \<open>Leaderboard.loadLeaderboard\<close>

text \<open>An entry of the page is the profile row spread into a new object, plus \<^verbatim>\<open>gpa\<close>.\<close>

record leaderboard_entry = profile_row +
  gpa :: int

definition with_gpa :: "profile_row \<Rightarrow> int \<Rightarrow> leaderboard_entry" where
  "with_gpa entry g = profile_row.extend entry (leaderboard_entry.fields g)"

definition itemsPerPage :: nat where
  "itemsPerPage = 10"

text \<open>
  \<^verbatim>\<open>range(from, to)\<close> keeps the rows from \<open>from\<close> to \<open>to\<close>, both included. The
  page number starts at 1.
\<close>

definition range_rows :: "nat \<Rightarrow> nat \<Rightarrow> 'a list \<Rightarrow> 'a list" where
  "range_rows from_row to_row rows = take (to_row + 1 - from_row) (drop from_row rows)"

text \<open>
  \<^verbatim>\<open>gpa: gpaData !== null ? parseFloat(gpaData.toString()) : 0\<close>, with the value in
  hundredths. The argument \<open>rpc\<close> is the \<^verbatim>\<open>data\<close> of the response for each user.
\<close>

definition entry_with_gpa :: "(uuid \<Rightarrow> int option) \<Rightarrow> profile_row \<Rightarrow> leaderboard_entry" where
  "entry_with_gpa rpc entry =
     with_gpa entry (case rpc (pr_user_id entry) of Some gpaData \<Rightarrow> gpaData | None \<Rightarrow> 0)"

text \<open>
  \<^verbatim>\<open>countError\<close> and \<^verbatim>\<open>error\<close> are thrown when set; \<^verbatim>\<open>data || []\<close> is mapped and
  then sorted in place by \<^verbatim>\<open>(a, b) => b.gpa - a.gpa\<close>, a stable sort, here insertion by
  descending \<open>gpa\<close>. The result is the list handed to \<^verbatim>\<open>setLeaderboard\<close>.
\<close>

definition loadLeaderboard ::
  "(uuid \<Rightarrow> int option) \<Rightarrow> js_error option \<Rightarrow> js_error option \<Rightarrow> profile_row list option
   \<Rightarrow> js_error + leaderboard_entry list" where
  "loadLeaderboard rpc countError error data =
     (case countError of
        Some e \<Rightarrow> Inl e
      | None \<Rightarrow>
          (case error of
             Some e \<Rightarrow> Inl e
           | None \<Rightarrow>
               Inr (sort_key (\<lambda>e. - gpa e)
                      (map (entry_with_gpa rpc) (case data of None \<Rightarrow> [] | Some rows \<Rightarrow> rows)))))"

text \<open>
  The \<^verbatim>\<open>error\<close> and \<^verbatim>\<open>data\<close> fields of a response from the store.
\<close>

definition pg_message :: "pg_error \<Rightarrow> string" where
  "pg_message e =
     (case e of
        Integer_out_of_range \<Rightarrow> ''integer out of range''
      | Numeric_field_overflow \<Rightarrow> ''numeric field overflow''
      | Infinite_recursion_in_policy \<Rightarrow> ''infinite recursion detected in policy'')"

definition response_error :: "pg_error + 'a \<Rightarrow> js_error option" where
  "response_error response =
     (case response of Inl e \<Rightarrow> Some (Error (pg_message e)) | Inr x \<Rightarrow> None)"

definition response_data :: "pg_error + 'a \<Rightarrow> 'a option" where
  "response_data response = (case response of Inl e \<Rightarrow> None | Inr x \<Rightarrow> Some x)"

text \<open>
  \<^verbatim>\<open>loadProfile\<close> asks for the single profile of the signed-in user and throws on an
  error (as \<^verbatim>\<open>single()\<close> reports when there is not exactly one row); the state
  \<^verbatim>\<open>profile\<close> then stays \<^verbatim>\<open>null\<close>.
\<close>

definition loadProfile :: "pg_error + profile_row list \<Rightarrow> profile_row option" where
  "loadProfile response =
     (case response of
        Inl e \<Rightarrow> None
      | Inr rows \<Rightarrow> (case rows of [data] \<Rightarrow> Some data | _ \<Rightarrow> None))"

text \<open>
  The rows of the table that the page renders for the signed-in user: the state
  \<^verbatim>\<open>leaderboard\<close>, which starts empty and is set only by a \<^verbatim>\<open>loadLeaderboard\<close>
  that did not throw; the effect calls \<^verbatim>\<open>loadLeaderboard\<close> only once \<^verbatim>\<open>profile\<close> is
  set.
\<close>

definition leaderboard_rendered :: "uuid \<Rightarrow> db \<Rightarrow> nat \<Rightarrow> leaderboard_entry list" where
  "leaderboard_rendered auth_uid d page =
     (case loadProfile (select_profiles auth_uid d (\<lambda>p. pr_user_id p = auth_uid)) of
        None \<Rightarrow> []
      | Some profile \<Rightarrow>
          (let same = (\<lambda>p. university_name p = university_name profile
                            \<and> course_name p = course_name profile);
               count_response = select_profiles auth_uid d same;
               page_response =
                 map_sum id (range_rows ((page - 1) * itemsPerPage) (page * itemsPerPage - 1))
                   (select_profiles auth_uid d same)
           in case loadLeaderboard (rpc_data auth_uid d) (response_error count_response)
                     (response_error page_response) (response_data page_response) of
                Inl e \<Rightarrow> []
              | Inr board \<Rightarrow> board))"

section \<open>Concrete states\<close>

definition semester_fall :: semester_row where
  "semester_fall = \<lparr>s_id = 1, s_user_id = 1, semester_name = ''Fall'', academic_year = ''2024'',
                     is_current = True\<rparr>"

definition module_of :: "int \<Rightarrow> string \<Rightarrow> attempt_type \<Rightarrow> module_row" where
  "module_of credits g a =
     \<lparr>m_semester_id = 1, m_user_id = 1, credit_hours = credits, grade = g,
      m_module_type = Compulsory, m_attempt_type = a\<rparr>"

text \<open>Three credits at 4.00 and four credits at 3.00.\<close>

definition db_weighted :: db where
  "db_weighted = \<lparr> profiles = [],
      grading_criteria = [\<lparr>gc_user_id = 1, grade_name = ''A'', gpa_value = 400\<rparr>,
                          \<lparr>gc_user_id = 1, grade_name = ''B'', gpa_value = 300\<rparr>],
      semesters = [semester_fall],
      modules = [module_of 3 ''A'' First_attempt, module_of 4 ''B'' Repeat] \<rparr>"

text \<open>Two graded modules whose credit hours add up to \<open>2\<^sup>3\<^sup>1\<close>.\<close>

definition db_overflow :: db where
  "db_overflow = \<lparr> profiles = [],
      grading_criteria = [\<lparr>gc_user_id = 1, grade_name = ''A'', gpa_value = 400\<rparr>],
      semesters = [semester_fall],
      modules = [module_of 2147483647 ''A'' First_attempt, module_of 1 ''A'' First_attempt] \<rparr>"

text \<open>Credit hours that add up to zero after passing \<open>2\<^sup>3\<^sup>1\<close>.\<close>

definition db_cancel :: db where
  "db_cancel = \<lparr> profiles = [],
      grading_criteria = [\<lparr>gc_user_id = 1, grade_name = ''A'', gpa_value = 400\<rparr>],
      semesters = [semester_fall],
      modules = [module_of 2147483647 ''A'' First_attempt, module_of 1 ''A'' First_attempt,
                 module_of (- 2147483648) ''A'' First_attempt] \<rparr>"

text \<open>Only a dropped module.\<close>

definition db_dropped :: db where
  "db_dropped = \<lparr> profiles = [],
      grading_criteria = [\<lparr>gc_user_id = 1, grade_name = ''A'', gpa_value = 400\<rparr>],
      semesters = [semester_fall],
      modules = [module_of 3 ''A'' Dropped] \<rparr>"

text \<open>A scale whose only grade is worth \<^verbatim>\<open>-1.00\<close>.\<close>

definition db_negative :: db where
  "db_negative = \<lparr> profiles = [],
      grading_criteria = [\<lparr>gc_user_id = 1, grade_name = ''F'', gpa_value = - 100\<rparr>],
      semesters = [semester_fall],
      modules = [module_of 3 ''F'' First_attempt] \<rparr>"

text \<open>A module with a negative number of credit hours.\<close>

definition db_negative_credits :: db where
  "db_negative_credits = \<lparr> profiles = [],
      grading_criteria = [\<lparr>gc_user_id = 1, grade_name = ''A'', gpa_value = 400\<rparr>,
                          \<lparr>gc_user_id = 1, grade_name = ''F'', gpa_value = 0\<rparr>],
      semesters = [semester_fall],
      modules = [module_of 3 ''A'' First_attempt, module_of (- 1) ''F'' First_attempt] \<rparr>"

text \<open>A user with a current semester adds another current semester.\<close>

definition form_current :: semester_form where
  "form_current = \<lparr>f_semester_name = ''Spring'', f_academic_year = ''2025'', f_is_current = True\<rparr>"

text \<open>A form with the label \<^verbatim>\<open>A\<close> on two lines, and the values the store keeps.\<close>

definition form_duplicate :: "criteria_form list" where
  "form_duplicate =
     [\<lparr>c_grade_name = ''A'', c_gpa_value = ''4.00'', c_min_percentage = ''90'', c_max_percentage = ''100''\<rparr>,
      \<lparr>c_grade_name = ''A '', c_gpa_value = ''3.70'', c_min_percentage = ''85'', c_max_percentage = ''89''\<rparr>]"

definition stored_example :: "string \<Rightarrow> int" where
  "stored_example s =
     (if s = ''4.00'' then 400 else if s = ''3.70'' then 370 else if s = ''3.30'' then 330
      else if s = ''3.00'' then 300 else if s = ''2.70'' then 270 else if s = ''2.30'' then 230
      else if s = ''2.00'' then 200 else if s = ''1.70'' then 170 else if s = ''1.00'' then 100
      else 0)"

text \<open>A student of university \<^verbatim>\<open>U\<close> and course \<^verbatim>\<open>C\<close>.\<close>

definition student_named :: "nat \<Rightarrow> string \<Rightarrow> profile_row" where
  "student_named i name = \<lparr>pr_id = i, pr_user_id = i, full_name = name, university_name = ''U'',
                            course_name = ''C'', registration_number = ''R''\<rparr>"

definition student :: "nat \<Rightarrow> profile_row" where
  "student i = student_named i ''Student''"

text \<open>
  Three students of one course, stored in the order Cem, Ann, Ben, each with one module
  of one credit hour: Ann has 3.80, Ben 2.10 and Cem 3.95.
\<close>

definition graded_once :: "nat \<Rightarrow> int \<Rightarrow> grading_row \<times> semester_row \<times> module_row" where
  "graded_once i v =
     (\<lparr>gc_user_id = i, grade_name = ''G'', gpa_value = v\<rparr>,
      \<lparr>s_id = i, s_user_id = i, semester_name = ''Fall'', academic_year = ''2024'',
        is_current = True\<rparr>,
      \<lparr>m_semester_id = i, m_user_id = i, credit_hours = 1, grade = ''G'',
        m_module_type = Compulsory, m_attempt_type = First_attempt\<rparr>)"

definition db_three :: db where
  "db_three = \<lparr> profiles = [student_named 3 ''Cem'', student_named 1 ''Ann'', student_named 2 ''Ben''],
      grading_criteria = map (\<lambda>(i, v). fst (graded_once i v)) [(1, 380), (2, 210), (3, 395)],
      semesters = map (\<lambda>(i, v). fst (snd (graded_once i v))) [(1, 380), (2, 210), (3, 395)],
      modules = map (\<lambda>(i, v). snd (snd (graded_once i v))) [(1, 380), (2, 210), (3, 395)] \<rparr>"

text \<open>A scale with 4.00 and \<^verbatim>\<open>-1.00\<close>: three credits at the one, one credit at the other.\<close>

definition db_mixed :: db where
  "db_mixed = \<lparr> profiles = [],
      grading_criteria = [\<lparr>gc_user_id = 1, grade_name = ''A'', gpa_value = 400\<rparr>,
                          \<lparr>gc_user_id = 1, grade_name = ''X'', gpa_value = - 100\<rparr>],
      semesters = [semester_fall],
      modules = [module_of 3 ''A'' First_attempt, module_of 1 ''X'' First_attempt] \<rparr>"

text \<open>
  Credit hours of both signs that stay within the \<^verbatim>\<open>INTEGER\<close> range: 2354 times a
  module of \<open>2\<^sup>3\<^sup>1 - 1\<close> credit hours at 9.99 followed by one of as many negative credit
  hours at \<^verbatim>\<open>-9.99\<close>, then 3333371 credit hours at 9.98 and \<open>-2333370\<close> at 9.99. The
  totals are 101002436527335.52 grade points and 1000001 credit hours.
\<close>

definition pair_count :: nat where
  "pair_count = 2354"

definition db_large_quotient :: db where
  "db_large_quotient = \<lparr> profiles = [],
      grading_criteria = [\<lparr>gc_user_id = 1, grade_name = ''P'', gpa_value = 999\<rparr>,
                          \<lparr>gc_user_id = 1, grade_name = ''N'', gpa_value = - 999\<rparr>,
                          \<lparr>gc_user_id = 1, grade_name = ''Q'', gpa_value = 998\<rparr>],
      semesters = [semester_fall],
      modules = concat (replicate pair_count [module_of 2147483647 ''P'' First_attempt,
                                              module_of (- 2147483647) ''N'' First_attempt])
                @ [module_of 3333371 ''Q'' First_attempt,
                   module_of (- 2333370) ''P'' First_attempt] \<rparr>"

text \<open>The responses for three students with 3.80, 2.10 and 3.95.\<close>

definition rpc_example :: "uuid \<Rightarrow> int option" where
  "rpc_example = map_of [(1, 380), (2, 210), (3, 395)]"

text \<open>The responses for two students: \<^verbatim>\<open>null\<close> for the first, 3.50 for the second.\<close>

definition rpc_null_first :: "uuid \<Rightarrow> int option" where
  "rpc_null_first = map_of [(2, 350)]"

text \<open>Two users of different universities; the second one's records in two variants.\<close>

definition profile_requester :: profile_row where
  "profile_requester = \<lparr>pr_id = 1, pr_user_id = 1, full_name = ''Requester'',
      university_name = ''U1'', course_name = ''C1'', registration_number = ''R1''\<rparr>"

definition profile_other :: profile_row where
  "profile_other = \<lparr>pr_id = 2, pr_user_id = 2, full_name = ''Other'',
      university_name = ''U2'', course_name = ''C2'', registration_number = ''R2''\<rparr>"

definition db_other_graded :: db where
  "db_other_graded = \<lparr> profiles = [profile_requester, profile_other],
      grading_criteria = [\<lparr>gc_user_id = 2, grade_name = ''A'', gpa_value = 400\<rparr>],
      semesters = [\<lparr>s_id = 1, s_user_id = 2, semester_name = ''Fall'', academic_year = ''2024'',
                    is_current = True\<rparr>],
      modules = [\<lparr>m_semester_id = 1, m_user_id = 2, credit_hours = 3, grade = ''A'',
                   m_module_type = Compulsory, m_attempt_type = First_attempt\<rparr>] \<rparr>"

definition db_other_empty :: db where
  "db_other_empty = \<lparr> profiles = [profile_requester, profile_other],
      grading_criteria = [], semesters = [], modules = [] \<rparr>"

section \<open>The loop and the query\<close>

lemma first_match_map_of:
  "map_option f (case filter (\<lambda>gc. gc_user_id gc = u \<and> grade_name gc = g) xs of
      [] \<Rightarrow> None | gc # _ \<Rightarrow> Some (gpa_value gc))
   = map_of (map (\<lambda>gc. (grade_name gc, f (gpa_value gc))) (filter (\<lambda>gc. gc_user_id gc = u) xs)) g"
  by (induction xs) auto

lemma select_gpa_value_scale:
  "map_option (\<lambda>v. rat_of_int v / 100) (select_gpa_value d u g) = user_scale d u g"
  unfolding select_gpa_value_def user_scale_def by (rule first_match_map_of)

lemma mapped_scale: "user_scale d u g = None \<longleftrightarrow> select_gpa_value d u g = None"
  using select_gpa_value_scale [of d u g, symmetric] by (cases "select_gpa_value d u g") auto

lemma select_none_labels:
  "select_gpa_value d u g = None \<longleftrightarrow> g \<notin> set (user_labels u (grading_criteria d))"
proof -
  let ?f = "filter (\<lambda>gc. gc_user_id gc = u \<and> grade_name gc = g) (grading_criteria d)"
  have "select_gpa_value d u g = None \<longleftrightarrow> ?f = []"
    by (simp add: select_gpa_value_def split: list.splits)
  also have "\<dots> \<longleftrightarrow> g \<notin> set (user_labels u (grading_criteria d))"
    by (auto simp: filter_empty_conv user_labels_def)
  finally show ?thesis .
qed

lemma select_in_scale:
  assumes "select_gpa_value d u g = Some v"
  shows "v \<in> set (scale_values d u)"
proof -
  from assms obtain gc rest where
    f: "filter (\<lambda>gc. gc_user_id gc = u \<and> grade_name gc = g) (grading_criteria d) = gc # rest"
    and v: "v = gpa_value gc"
    by (auto simp: select_gpa_value_def split: list.splits)
  have "gc \<in> set (filter (\<lambda>gc. gc_user_id gc = u \<and> grade_name gc = g) (grading_criteria d))"
    unfolding f by simp
  then show ?thesis using v by (auto simp: scale_values_def)
qed

lemma select_in_range:
  assumes "schema_ok d" and "select_gpa_value d u g = Some v"
  shows "\<bar>v\<bar> \<le> 999"
proof -
  from assms(2) have "v \<in> set (scale_values d u)" by (rule select_in_scale)
  then obtain gc where "gc \<in> set (grading_criteria d)" and "v = gpa_value gc"
    by (auto simp: scale_values_def)
  with assms(1) show ?thesis by (auto simp: schema_ok_def list_all_iff)
qed

text \<open>Under the key constraints every module meets exactly one semester in the join.\<close>

lemma join_single:
  assumes "distinct (map s_id ss)" and "list_ex (\<lambda>s. s_id s = k) ss"
  shows "map (\<lambda>s. m) (filter (\<lambda>s. k = s_id s) ss) = [m]"
  using assms by (induction ss) (auto simp: list_ex_iff filter_empty_conv image_iff)

lemma concat_map_single: "(\<And>x. x \<in> set xs \<Longrightarrow> f x = [x]) \<Longrightarrow> concat (map f xs) = xs"
  by (induction xs) auto

lemma join_id: "schema_ok d \<Longrightarrow> modules_join_semesters d = modules d"
  unfolding schema_ok_def modules_join_semesters_def
  by (rule concat_map_single) (auto simp: list_all_iff intro!: join_single)

lemma gpa_where_scope:
  "gpa_where u sem m \<longleftrightarrow> m_user_id m = u \<and> in_scope sem m \<and> m_attempt_type m \<noteq> Dropped"
  by (cases sem) (auto simp: gpa_where_def in_scope_def)

lemma eligible_query:
  "schema_ok d \<Longrightarrow>
   filter (\<lambda>m. select_gpa_value d u (grade m) \<noteq> None) (gpa_query d u sem)
   = eligible_modules d u sem"
  by (simp add: gpa_query_def join_id eligible_modules_def gpa_where_scope mapped_scale conj_ac
      del: not_None_eq)

lemma eligible_select:
  "m \<in> set (eligible_modules d u sem) \<Longrightarrow> \<exists>v. select_gpa_value d u (grade m) = Some v"
  by (auto simp: eligible_modules_def mapped_scale)

text \<open>What the loop returns, for any list of rows and any starting accumulators.\<close>

lemma gpa_loop_char:
  "gpa_loop d u ms (g, c) =
     (let es = filter (\<lambda>m. select_gpa_value d u (grade m) \<noteq> None) ms in
      if credits_fit c (map credit_hours es)
      then Inr (g + (\<Sum>m\<leftarrow>es. (case select_gpa_value d u (grade m) of None \<Rightarrow> 0 | Some v \<Rightarrow> v)
                              * credit_hours m),
                c + (\<Sum>m\<leftarrow>es. credit_hours m))
      else Inl Integer_out_of_range)"
  by (induction ms arbitrary: g c) (auto simp: Let_def algebra_simps)

lemma loop_result:
  assumes "schema_ok d" and "credits_fit 0 (map credit_hours (eligible_modules d u sem))"
  shows "gpa_loop d u (gpa_query d u sem) (0, 0) =
     Inr (\<Sum>m\<leftarrow>eligible_modules d u sem.
            (case select_gpa_value d u (grade m) of None \<Rightarrow> 0 | Some v \<Rightarrow> v) * credit_hours m,
          \<Sum>m\<leftarrow>eligible_modules d u sem. credit_hours m)"
  using assms(2) by (simp add: gpa_loop_char eligible_query [OF assms(1)] Let_def del: not_None_eq)

lemma gpa_loop_skip:
  "gpa_loop d u ms acc
   = gpa_loop d u (filter (\<lambda>m. select_gpa_value d u (grade m) \<noteq> None) ms) acc"
  by (induction d u ms acc rule: gpa_loop.induct) (auto split: option.splits)

lemma gpa_loop_tables:
  assumes "grading_criteria d = grading_criteria d'"
  shows "gpa_loop d u ms acc = gpa_loop d' u ms acc"
proof -
  have eq: "select_gpa_value d u = select_gpa_value d' u"
    using assms by (simp add: select_gpa_value_def fun_eq_iff)
  obtain g c where acc: "acc = (g, c)" by (cases acc)
  show ?thesis unfolding acc gpa_loop_char eq ..
qed

lemma join_append:
  "modules_join_semesters (d\<lparr>modules := xs @ ys\<rparr>)
   = modules_join_semesters (d\<lparr>modules := xs\<rparr>) @ modules_join_semesters (d\<lparr>modules := ys\<rparr>)"
  by (simp add: modules_join_semesters_def)

lemma join_one:
  "modules_join_semesters (d\<lparr>modules := [x]\<rparr>)
   = replicate (length (filter (\<lambda>s. m_semester_id x = s_id s) (semesters d))) x"
  by (simp add: modules_join_semesters_def map_replicate_const)

lemma query_append:
  "gpa_query (d\<lparr>modules := xs @ ys\<rparr>) u sem
   = gpa_query (d\<lparr>modules := xs\<rparr>) u sem @ gpa_query (d\<lparr>modules := ys\<rparr>) u sem"
  by (simp only: gpa_query_def join_append filter_append)

lemma query_insert:
  "gpa_query (d\<lparr>modules := xs @ x # ys\<rparr>) u sem
   = gpa_query (d\<lparr>modules := xs\<rparr>) u sem
     @ filter (gpa_where u sem)
         (replicate (length (filter (\<lambda>s. m_semester_id x = s_id s) (semesters d))) x)
     @ gpa_query (d\<lparr>modules := ys\<rparr>) u sem"
proof -
  have "xs @ x # ys = xs @ [x] @ ys" by simp
  then show ?thesis
    by (simp only: gpa_query_def join_append join_one filter_append)
qed

section \<open>Rounding\<close>

declare digits_weight.simps [simp del] digits_first.simps [simp del]

lemma round_half_away_div_pos:
  "0 \<le> a \<Longrightarrow> 0 < b \<Longrightarrow> round_half_away_div a b = (2 * a + b) div (2 * b)"
  by (cases "a = 0") (simp_all add: round_half_away_div_def)

lemma round_half_away_div_minus:
  "round_half_away_div (- a) b = - round_half_away_div a b"
  by (simp add: round_half_away_div_def sgn_minus)

text \<open>The rounding of the code is the rounding of the specification.\<close>

lemma round_half_away_div_rat:
  assumes "b \<noteq> 0"
  shows "rat_of_int (round_half_away_div a b) / 100
         = round_half_away_2 (rat_of_int a / 100 / rat_of_int b)"
proof -
  have fl: "\<lfloor>rat_of_int \<bar>a\<bar> / rat_of_int \<bar>b\<bar> + 1 / 2\<rfloor> = (2 * \<bar>a\<bar> + \<bar>b\<bar>) div (2 * \<bar>b\<bar>)"
  proof -
    have "rat_of_int \<bar>a\<bar> / rat_of_int \<bar>b\<bar> + 1 / 2
          = rat_of_int (2 * \<bar>a\<bar> + \<bar>b\<bar>) / rat_of_int (2 * \<bar>b\<bar>)"
      using assms by (simp add: field_simps)
    then show ?thesis by (simp only: floor_divide_of_int_eq)
  qed
  have q0: "a = 0 \<Longrightarrow> (2 * \<bar>a\<bar> + \<bar>b\<bar>) div (2 * \<bar>b\<bar>) = 0"
    using assms by simp
  let ?x = "rat_of_int a / 100 / rat_of_int b"
  have ax: "\<bar>?x\<bar> * 100 = rat_of_int \<bar>a\<bar> / rat_of_int \<bar>b\<bar>"
    by (simp add: abs_divide)
  show ?thesis
  proof (cases "0 \<le> ?x")
    case True
    then have "\<bar>?x\<bar> = ?x" by (rule abs_of_nonneg)
    with ax have "?x * 100 = rat_of_int \<bar>a\<bar> / rat_of_int \<bar>b\<bar>"
      by (simp only:)
    moreover have "sgn a * sgn b * ((2 * \<bar>a\<bar> + \<bar>b\<bar>) div (2 * \<bar>b\<bar>))
                   = (2 * \<bar>a\<bar> + \<bar>b\<bar>) div (2 * \<bar>b\<bar>)"
    proof (cases "a = 0")
      case True then show ?thesis using q0 by simp
    next
      case False
      with True assms have "sgn a * sgn b = 1"
        by (auto simp: sgn_if zero_le_divide_iff split: if_splits)
      then show ?thesis by simp
    qed
    ultimately have "round_half_away_div a b = \<lfloor>?x * 100 + 1 / 2\<rfloor>"
      by (simp only: round_half_away_div_def fl)
    moreover have "round_half_away_2 ?x = rat_of_int \<lfloor>?x * 100 + 1 / 2\<rfloor> / 100"
      using True by (simp only: round_half_away_2_def if_True)
    ultimately show ?thesis by (simp only:)
  next
    case False
    then have "\<bar>?x\<bar> = - ?x" by (simp only: abs_of_neg not_le)
    with ax have "- ?x * 100 = rat_of_int \<bar>a\<bar> / rat_of_int \<bar>b\<bar>"
      by (simp only:)
    moreover from False assms have "sgn a * sgn b = - 1"
      by (auto simp: sgn_if zero_le_divide_iff not_le divide_less_0_iff split: if_splits)
    ultimately have "round_half_away_div a b = - \<lfloor>- ?x * 100 + 1 / 2\<rfloor>"
      by (simp only: round_half_away_div_def fl mult_minus1)
    moreover have "round_half_away_2 ?x = - (rat_of_int \<lfloor>- ?x * 100 + 1 / 2\<rfloor> / 100)"
      using False by (simp only: round_half_away_2_def if_False)
    ultimately show ?thesis by (simp only: of_int_minus minus_divide_left)
  qed
qed

lemma div_eqI:
  assumes "0 < (y::int)" and "q * y \<le> a" and "a < (q + 1) * y"
  shows "a div y = q"
proof (rule int_div_pos_eq [of a y q "a - q * y"])
  show "a = y * q + (a - q * y)" by (simp add: algebra_simps)
  show "0 \<le> a - q * y" using assms(2) by simp
  show "a - q * y < y" using assms(3) by (simp add: algebra_simps)
qed

lemma div_bounds:
  assumes "0 < (y::int)"
  shows "a div y * y \<le> a" and "a < (a div y + 1) * y"
proof -
  have eq: "a = a div y * y + a mod y" by simp
  have m: "0 \<le> a mod y" "a mod y < y" using assms by simp_all
  show "a div y * y \<le> a" using eq m(1) by linarith
  have "(a div y + 1) * y = a div y * y + y" by (simp add: algebra_simps)
  then show "a < (a div y + 1) * y" using eq m(2) by linarith
qed

text \<open>
  Rounding a quotient first at \<open>D\<close> times the precision and then again gives the
  directly rounded quotient whenever the divisor is smaller than \<open>D\<close>.
\<close>

lemma double_rounding_pos:
  assumes "0 \<le> G" and "0 < c" and "c < D"
  shows "round_half_away_div (round_half_away_div (G * D) c) D = round_half_away_div G c"
proof -
  let ?n = "(2 * G + c) div (2 * c)"
  let ?N = "(2 * (G * D) + c) div (2 * c)"
  have D: "0 < D" using assms by simp
  have c2: "0 < 2 * c" using assms by simp
  have n1: "?n * (2 * c) \<le> 2 * G + c" and n2: "2 * G + c < (?n + 1) * (2 * c)"
    using div_bounds [OF c2, of "2 * G + c"] by simp_all
  have N1: "?N * (2 * c) \<le> 2 * (G * D) + c" and N2: "2 * (G * D) + c < (?N + 1) * (2 * c)"
    using div_bounds [OF c2, of "2 * (G * D) + c"] by simp_all
  have GD: "0 \<le> G * D" using assms D by simp
  have N0: "0 \<le> ?N" using GD assms by (simp add: pos_imp_zdiv_nonneg_iff)
  have lower: "?n * (2 * D) \<le> 2 * ?N + D"
  proof -
    have "(2 * ?n * c - c) * D \<le> (2 * G) * D"
      using n1 D by (intro mult_right_mono) (simp_all add: algebra_simps)
    then have "(2 * ?n - 1) * D * c \<le> 2 * (G * D)" by (simp add: algebra_simps)
    also have "\<dots> < (2 * ?N + 1) * c" using N2 by (simp add: algebra_simps)
    finally have "(2 * ?n - 1) * D < 2 * ?N + 1" using assms(2) by simp
    then show ?thesis by (simp add: algebra_simps)
  qed
  have upper: "2 * ?N + D < (?n + 1) * (2 * D)"
  proof -
    have "2 * G + 1 \<le> (2 * ?n + 1) * c" using n2 by (simp add: algebra_simps)
    then have "(2 * G + 1) * D \<le> ((2 * ?n + 1) * c) * D"
      using D by (intro mult_right_mono) simp_all
    then have "2 * (G * D) + c < (2 * ?n + 1) * D * c"
      using assms(3) by (simp add: algebra_simps)
    with N1 have "(2 * ?N) * c < (2 * ?n + 1) * D * c" by (simp add: algebra_simps)
    then have "2 * ?N < (2 * ?n + 1) * D" using assms(2) by simp
    then show ?thesis by (simp add: algebra_simps)
  qed
  have "(2 * ?N + D) div (2 * D) = ?n"
    using D lower upper by (intro div_eqI) simp_all
  then show ?thesis
    using assms D GD N0 by (simp add: round_half_away_div_pos)
qed

lemma double_rounding:
  assumes "0 < c" and "c < D"
  shows "round_half_away_div (round_half_away_div (G * D) c) D = round_half_away_div G c"
proof (cases "0 \<le> G")
  case True
  then show ?thesis using assms by (rule double_rounding_pos)
next
  case False
  then have "0 \<le> - G" by simp
  from double_rounding_pos [OF this assms]
  show ?thesis by (simp add: round_half_away_div_minus)
qed

text \<open>The weight of a positive integer grows with it, by one for each factor 10000.\<close>

lemma digits_weight_nonneg: "0 \<le> digits_weight n"
  by (induction n rule: digits_weight.induct) (subst digits_weight.simps, simp)

lemma digits_weight_mono: "m \<le> n \<Longrightarrow> digits_weight m \<le> digits_weight n"
proof (induction n arbitrary: m rule: digits_weight.induct)
  case (1 n)
  show ?case
  proof (cases "n < 10000")
    case True
    with "1.prems" have "m < 10000" by simp
    with True show ?thesis by (simp add: digits_weight.simps [of m] digits_weight.simps [of n])
  next
    case False
    show ?thesis
    proof (cases "m < 10000")
      case True
      with False digits_weight_nonneg [of "n div 10000"] show ?thesis
        by (simp add: digits_weight.simps [of m] digits_weight.simps [of n])
    next
      case m: False
      have "m div 10000 \<le> n div 10000" using "1.prems" by (simp add: zdiv_mono1)
      with False have "digits_weight (m div 10000) \<le> digits_weight (n div 10000)"
        by (intro "1.IH") simp_all
      with False m show ?thesis
        by (simp add: digits_weight.simps [of m] digits_weight.simps [of n])
    qed
  qed
qed

lemma digits_weight_shift: "1 \<le> n \<Longrightarrow> digits_weight (10000 * n) = digits_weight n + 1"
  by (subst digits_weight.simps) simp

text \<open>
  A quotient of at most 9.99 in absolute value by a positive number of credit hours is
  kept to at least twelve decimal places, more than an \<^verbatim>\<open>INTEGER\<close> has digits, so that
  \<^verbatim>\<open>ROUND\<close> of it is the directly rounded quotient.
\<close>

lemma select_div_scale_ge:
  assumes "0 < c" and "\<bar>G\<bar> \<le> 999 * c"
  shows "12 \<le> select_div_scale G (100 * c)"
proof -
  have w2: "numeric_weight (100 * c) = digits_weight c"
    using assms(1) by (simp add: numeric_weight_def)
  have w1: "numeric_weight G \<le> digits_weight c + 1"
  proof (cases "100 \<le> \<bar>G\<bar>")
    case True
    have "\<bar>G\<bar> div 100 * 100 \<le> \<bar>G\<bar>" by (rule div_bounds) simp
    moreover have "0 \<le> \<bar>G\<bar> div 100" by (simp add: pos_imp_zdiv_nonneg_iff)
    ultimately have "\<bar>G\<bar> div 100 \<le> \<bar>G\<bar>" by linarith
    also have "\<dots> \<le> 10000 * c" using assms by simp
    finally have "digits_weight (\<bar>G\<bar> div 100) \<le> digits_weight (10000 * c)"
      by (rule digits_weight_mono)
    with True assms(1) show ?thesis by (simp add: numeric_weight_def digits_weight_shift)
  next
    case False
    with digits_weight_nonneg [of c] show ?thesis by (simp add: numeric_weight_def)
  qed
  let ?q = "numeric_weight G - numeric_weight (100 * c)
            - (if numeric_first_digit G \<le> numeric_first_digit (100 * c) then 1 else 0)"
  have "?q \<le> 1" using w1 w2 by simp
  then have "12 \<le> 16 - ?q * 4" by simp
  then show ?thesis by (simp add: select_div_scale_def Let_def)
qed

lemma numeric_div_exact:
  assumes "0 < c" and "c \<le> 2147483647" and "\<bar>G\<bar> \<le> 999 * c"
  shows "numeric_round_2 (numeric_div G c) = round_half_away_div G c"
proof -
  let ?r = "select_div_scale G (100 * c)"
  have "12 \<le> ?r" using assms(1,3) by (rule select_div_scale_ge)
  then have "10 \<le> nat (?r - 2)" by simp
  then have "(10::int) ^ 10 \<le> 10 ^ nat (?r - 2)" by (intro power_increasing) simp_all
  with assms(2) have "c < 10 ^ nat (?r - 2)" by simp
  with assms(1) show ?thesis
    by (simp add: numeric_round_2_def numeric_div_def Let_def double_rounding)
qed

text \<open>Bounds of a rounded quotient with a positive divisor.\<close>

lemma div_le_bound:
  assumes "0 < (y::int)" and "x < (M + 1) * y"
  shows "x div y \<le> M"
proof -
  have "x \<le> M * y + (y - 1)" using assms(2) by (simp add: algebra_simps)
  then have "x div y \<le> (M * y + (y - 1)) div y" using assms(1) by (rule zdiv_mono1)
  also have "(M * y + (y - 1)) div y = M" using assms(1) by (simp add: div_pos_pos_trivial)
  finally show ?thesis .
qed

lemma round_half_away_div_nonneg:
  "0 \<le> a \<Longrightarrow> 0 < b \<Longrightarrow> 0 \<le> round_half_away_div a b"
  by (simp add: round_half_away_div_pos pos_imp_zdiv_nonneg_iff)

lemma round_half_away_div_le:
  assumes "0 < b" and "a \<le> M * b"
  shows "round_half_away_div a b \<le> M"
proof (cases "0 \<le> a")
  case True
  have "2 * a + b < (M + 1) * (2 * b)" using assms by (simp add: algebra_simps)
  with assms(1) have "(2 * a + b) div (2 * b) \<le> M" by (intro div_le_bound) simp_all
  with True assms(1) show ?thesis by (simp add: round_half_away_div_pos)
next
  case False
  then have a: "0 \<le> - a" by simp
  have nn: "0 \<le> round_half_away_div (- a) b" using a assms(1) by (rule round_half_away_div_nonneg)
  show ?thesis
  proof (cases "0 \<le> M")
    case True
    with nn show ?thesis by (simp add: round_half_away_div_minus)
  next
    case M: False
    have "(- M) * (2 * b) \<le> 2 * (- a) + b" using assms by (simp add: algebra_simps)
    then have "((- M) * (2 * b)) div (2 * b) \<le> (2 * (- a) + b) div (2 * b)"
      using assms(1) by (intro zdiv_mono1) simp_all
    moreover have "((- M) * (2 * b)) div (2 * b) = - M"
      using assms(1) by (intro nonzero_mult_div_cancel_right) simp
    ultimately have "- M \<le> (2 * (- a) + b) div (2 * b)" by (simp only:)
    then have "- M \<le> round_half_away_div (- a) b"
      using a assms(1) by (simp add: round_half_away_div_pos)
    then show ?thesis by (simp add: round_half_away_div_minus)
  qed
qed

section \<open>The two totals\<close>

lemma grade_points_sum:
  "(\<Sum>m\<leftarrow>ms. grade_point d u m * rat_of_int (credit_hours m))
   = rat_of_int (\<Sum>m\<leftarrow>ms. (case select_gpa_value d u (grade m) of None \<Rightarrow> 0 | Some v \<Rightarrow> v)
                          * credit_hours m) / 100"
proof (induction ms)
  case Nil
  show ?case by simp
next
  case (Cons m ms)
  have "grade_point d u m
        = rat_of_int (case select_gpa_value d u (grade m) of None \<Rightarrow> 0 | Some v \<Rightarrow> v) / 100"
    using select_gpa_value_scale [of d u "grade m", symmetric]
    by (cases "select_gpa_value d u (grade m)") (auto simp: grade_point_def)
  with Cons show ?case by (simp add: field_simps)
qed

lemma weighted_sum_le:
  assumes "\<forall>m\<in>set ms. f m \<le> M \<and> 0 \<le> credit_hours m"
  shows "(\<Sum>m\<leftarrow>ms. f m * credit_hours m) \<le> M * (\<Sum>m\<leftarrow>ms. credit_hours m)"
  using assms
proof (induction ms)
  case Nil
  show ?case by simp
next
  case (Cons m ms)
  then have "f m * credit_hours m \<le> M * credit_hours m"
    by (simp add: mult_right_mono)
  with Cons show ?case by (simp add: distrib_left)
qed

lemma weighted_sum_ge:
  assumes "\<forall>m\<in>set ms. L \<le> f m \<and> 0 \<le> credit_hours m"
  shows "L * (\<Sum>m\<leftarrow>ms. credit_hours m) \<le> (\<Sum>m\<leftarrow>ms. f m * credit_hours m)"
  using assms
proof (induction ms)
  case Nil
  show ?case by simp
next
  case (Cons m ms)
  then have "L * credit_hours m \<le> f m * credit_hours m"
    by (simp add: mult_right_mono)
  with Cons show ?case by (simp add: distrib_left)
qed

lemma credits_fit_total:
  "credits_fit acc cs \<Longrightarrow> int4_ok acc \<Longrightarrow> int4_ok (acc + sum_list cs)"
  by (induction cs arbitrary: acc) (auto simp flip: add.assoc)

text \<open>
  The value that \<open>calculate_gpa\<close> returns when no eligible module has negative credit
  hours: zero, or the directly rounded quotient of the two totals.
\<close>

lemma calculate_gpa_value:
  assumes "schema_ok d"
    and "credits_fit 0 (map credit_hours (eligible_modules d u sem))"
    and "\<forall>m\<in>set (eligible_modules d u sem). 0 \<le> credit_hours m"
  shows "calculate_gpa d u sem =
    Inr (if (\<Sum>m\<leftarrow>eligible_modules d u sem. credit_hours m) = 0 then 0
         else round_half_away_div
                (\<Sum>m\<leftarrow>eligible_modules d u sem.
                   (case select_gpa_value d u (grade m) of None \<Rightarrow> 0 | Some v \<Rightarrow> v) * credit_hours m)
                (\<Sum>m\<leftarrow>eligible_modules d u sem. credit_hours m))"
proof -
  let ?es = "eligible_modules d u sem"
  let ?f = "\<lambda>m. case select_gpa_value d u (grade m) of None \<Rightarrow> 0 | Some v \<Rightarrow> v"
  let ?g = "\<Sum>m\<leftarrow>?es. ?f m * credit_hours m"
  let ?c = "\<Sum>m\<leftarrow>?es. credit_hours m"
  have loop: "gpa_loop d u (gpa_query d u sem) (0, 0) = Inr (?g, ?c)"
    using assms(1,2) by (rule loop_result)
  show ?thesis
  proof (cases "?c = 0")
    case True
    with loop show ?thesis by (simp add: calculate_gpa_def)
  next
    case False
    have c0: "0 \<le> ?c" using assms(3) by (intro sum_list_nonneg) auto
    with False have cpos: "0 < ?c" by simp
    have "int4_ok (0 + sum_list (map credit_hours ?es))"
      using assms(2) by (rule credits_fit_total) (simp add: int4_ok_def)
    then have cmax: "?c \<le> 2147483647" by (simp add: int4_ok_def)
    have each: "\<forall>m\<in>set ?es. - 999 \<le> ?f m \<and> ?f m \<le> 999 \<and> 0 \<le> credit_hours m"
    proof
      fix m assume m: "m \<in> set ?es"
      then obtain v where v: "select_gpa_value d u (grade m) = Some v"
        using eligible_select by blast
      with assms(1) have "\<bar>v\<bar> \<le> 999" by (rule select_in_range)
      with v m assms(3) show "- 999 \<le> ?f m \<and> ?f m \<le> 999 \<and> 0 \<le> credit_hours m"
        by (simp add: abs_le_iff)
    qed
    have "?g \<le> 999 * ?c" using each by (intro weighted_sum_le) simp
    moreover have "- 999 * ?c \<le> ?g" using each by (intro weighted_sum_ge) simp
    ultimately have "\<bar>?g\<bar> \<le> 999 * ?c" by simp
    with cpos cmax have "numeric_round_2 (numeric_div ?g ?c) = round_half_away_div ?g ?c"
      by (rule numeric_div_exact)
    with loop False show ?thesis by (simp add: calculate_gpa_def)
  qed
qed

section \<open>The weighted example\<close>

lemma calculate_gpa_weighted: "calculate_gpa db_weighted 1 None = Inr 343"
  by code_simp

lemma schema_ok_weighted: "schema_ok db_weighted"
  by code_simp

lemma credits_fit_weighted:
  "credits_fit 0 (map credit_hours (eligible_modules db_weighted 1 None))"
  by code_simp

lemma credits_nonneg_weighted:
  "\<forall>m\<in>set (eligible_modules db_weighted 1 None). 0 \<le> credit_hours m"
  by code_simp

section \<open>A quotient of large weight\<close>

text \<open>
  The running credit total of \<open>db_large_quotient\<close> returns to zero after every pair of
  modules, while the grade points of the pair add up, so the totals follow from the
  number of pairs.
\<close>

lemma gpa_loop_pairs:
  assumes "select_gpa_value d u (grade a) = Some va"
    and "select_gpa_value d u (grade b) = Some vb"
    and "credit_hours b = - credit_hours a"
    and "int4_ok (c + credit_hours a)" and "int4_ok c"
  shows "gpa_loop d u (concat (replicate n [a, b]) @ rest) (g, c)
         = gpa_loop d u rest (g + int n * (va * credit_hours a + vb * credit_hours b), c)"
  using assms by (induction n arbitrary: g) (simp_all add: algebra_simps)

lemma list_all_pairs: "P a \<Longrightarrow> P b \<Longrightarrow> list_all P (concat (replicate n [a, b]))"
  by (induction n) simp_all

lemma filter_pairs:
  "P a \<Longrightarrow> P b \<Longrightarrow> filter P (concat (replicate n [a, b])) = concat (replicate n [a, b])"
  by (induction n) simp_all

lemma sum_pairs:
  "(\<Sum>m\<leftarrow>concat (replicate n [a, b]). (f m :: int)) = int n * (f a + f b)"
  by (induction n) (simp_all add: algebra_simps)

lemma modules_large:
  "modules db_large_quotient
   = concat (replicate pair_count [module_of 2147483647 ''P'' First_attempt,
                                   module_of (- 2147483647) ''N'' First_attempt])
     @ [module_of 3333371 ''Q'' First_attempt, module_of (- 2333370) ''P'' First_attempt]"
  by (simp add: db_large_quotient_def)

lemma select_large:
  "select_gpa_value db_large_quotient (Suc 0) g
   = (if g = ''P'' then Some 999 else if g = ''N'' then Some (- 999)
      else if g = ''Q'' then Some 998 else None)"
  by (simp add: select_gpa_value_def db_large_quotient_def)

lemma module_of_simps:
  "grade (module_of c g a) = g" "credit_hours (module_of c g a) = c"
  "m_user_id (module_of c g a) = 1" "m_semester_id (module_of c g a) = 1"
  "m_attempt_type (module_of c g a) = a"
  by (simp_all add: module_of_def)

lemma tables_large:
  "semesters db_large_quotient = [semester_fall]"
  "grading_criteria db_large_quotient
   = [\<lparr>gc_user_id = 1, grade_name = ''P'', gpa_value = 999\<rparr>,
      \<lparr>gc_user_id = 1, grade_name = ''N'', gpa_value = - 999\<rparr>,
      \<lparr>gc_user_id = 1, grade_name = ''Q'', gpa_value = 998\<rparr>]"
  by (simp_all add: db_large_quotient_def)

lemma schema_ok_large: "schema_ok db_large_quotient"
proof -
  have "list_all (\<lambda>m. list_ex (\<lambda>s. s_id s = m_semester_id m) [semester_fall])
          (modules db_large_quotient)"
    unfolding modules_large
    by (simp add: list_all_pairs module_of_simps semester_fall_def)
  moreover have "list_all (\<lambda>m. int4_ok (credit_hours m)) (modules db_large_quotient)"
    unfolding modules_large
    by (simp add: list_all_pairs module_of_simps int4_ok_def)
  ultimately show ?thesis
    by (simp add: schema_ok_def tables_large)
qed

lemma query_large: "gpa_query db_large_quotient 1 None = modules db_large_quotient"
proof -
  have "modules_join_semesters db_large_quotient = modules db_large_quotient"
    using schema_ok_large by (rule join_id)
  then have "gpa_query db_large_quotient 1 None
             = filter (gpa_where 1 None) (modules db_large_quotient)"
    by (simp add: gpa_query_def)
  also have "\<dots> = modules db_large_quotient"
    unfolding modules_large by (simp add: filter_pairs gpa_where_def module_of_simps)
  finally show ?thesis .
qed

lemma loop_large:
  "gpa_loop db_large_quotient 1 (modules db_large_quotient) (0, 0)
   = Inr (10100243652733552, 1000001)"
proof -
  let ?d = db_large_quotient
  have "gpa_loop ?d 1 (concat (replicate pair_count [module_of 2147483647 ''P'' First_attempt,
                                        module_of (- 2147483647) ''N'' First_attempt])
                @ [module_of 3333371 ''Q'' First_attempt,
                   module_of (- 2333370) ''P'' First_attempt]) (0, 0)
         = gpa_loop ?d 1 [module_of 3333371 ''Q'' First_attempt,
                   module_of (- 2333370) ''P'' First_attempt]
             (0 + int pair_count * (999 * credit_hours (module_of 2147483647 ''P'' First_attempt)
                 + (- 999) * credit_hours (module_of (- 2147483647) ''N'' First_attempt)), 0)"
    by (rule gpa_loop_pairs) (simp_all add: module_of_simps select_large int4_ok_def)
  also have "\<dots> = Inr (10100243652733552, 1000001)"
    by (simp add: module_of_simps select_large int4_ok_def pair_count_def)
  finally show ?thesis unfolding modules_large .
qed

lemma calculate_gpa_large: "calculate_gpa db_large_quotient 1 None = Inr 10100233553"
proof -
  have "numeric_round_2 (numeric_div 10100243652733552 1000001) = 10100233553" by code_simp
  then show ?thesis
    by (simp only: calculate_gpa_def query_large loop_large) simp
qed

lemma eligible_large: "eligible_modules db_large_quotient 1 None = modules db_large_quotient"
proof -
  have "eligible_modules db_large_quotient 1 None
        = filter (\<lambda>m. select_gpa_value db_large_quotient 1 (grade m) \<noteq> None)
            (gpa_query db_large_quotient 1 None)"
    using schema_ok_large by (rule eligible_query [symmetric])
  also have "\<dots> = filter (\<lambda>m. select_gpa_value db_large_quotient 1 (grade m) \<noteq> None)
            (modules db_large_quotient)"
    by (simp only: query_large)
  also have "\<dots> = modules db_large_quotient"
    unfolding modules_large by (simp add: filter_pairs module_of_simps select_large)
  finally show ?thesis .
qed

lemma reference_gpa_large: "reference_gpa db_large_quotient 1 None = 10100233552 / 100"
proof -
  let ?d = db_large_quotient
  let ?f = "\<lambda>m. (case select_gpa_value ?d 1 (grade m) of None \<Rightarrow> 0 | Some v \<Rightarrow> v) * credit_hours m"
  have c: "(\<Sum>m\<leftarrow>modules ?d. credit_hours m) = 1000001"
    unfolding modules_large by (simp add: sum_pairs module_of_simps pair_count_def)
  have g: "(\<Sum>m\<leftarrow>modules ?d. ?f m) = 10100243652733552"
    unfolding modules_large by (simp add: sum_pairs module_of_simps select_large pair_count_def)
  have "reference_gpa ?d 1 None
        = round_half_away_2 (rat_of_int 10100243652733552 / 100 / rat_of_int 1000001)"
    by (simp only: reference_gpa_def Let_def eligible_large grade_points_sum c g) simp
  also have "\<dots> = rat_of_int (round_half_away_div 10100243652733552 1000001) / 100"
    by (rule round_half_away_div_rat [symmetric]) simp
  also have "round_half_away_div 10100243652733552 1000001 = 10100233552" by code_simp
  finally show ?thesis by simp
qed

lemma credits_fit_large:
  "credits_fit 0 (map credit_hours (eligible_modules db_large_quotient 1 None))"
proof (rule ccontr)
  assume "\<not> credits_fit 0 (map credit_hours (eligible_modules db_large_quotient 1 None))"
  then have "gpa_loop db_large_quotient 1 (gpa_query db_large_quotient 1 None) (0, 0)
             = Inl Integer_out_of_range"
    by (simp add: gpa_loop_char eligible_query [OF schema_ok_large] Let_def del: not_None_eq)
  then show False by (simp only: query_large loop_large) simp
qed

section \<open>Claims about calculate_gpa\<close>

text \<open>
  C1, as the code has it: on tables that meet the constraints of the migration and
  where no eligible module has negative credit hours, \<open>calculate_gpa\<close> returns the
  reference value of the specification (the rounded quotient of the two totals over the
  eligible modules, zero when the credit total is zero) whenever the running total of
  credit hours stays within the \<^verbatim>\<open>INTEGER\<close> range, and raises
  \<^verbatim>\<open>integer out of range\<close> otherwise.
\<close>

theorem calculate_gpa_reference:
  assumes "schema_ok d"
    and "\<forall>m\<in>set (eligible_modules d u sem). 0 \<le> credit_hours m"
  shows "map_sum id decimal_of (calculate_gpa d u sem) =
    (if credits_fit 0 (map credit_hours (eligible_modules d u sem))
     then Inr (reference_gpa d u sem) else Inl Integer_out_of_range)"
proof (cases "credits_fit 0 (map credit_hours (eligible_modules d u sem))")
  case False
  then show ?thesis
    by (simp add: calculate_gpa_def gpa_loop_char eligible_query [OF assms(1)] Let_def
        del: not_None_eq)
next
  case True
  let ?es = "eligible_modules d u sem"
  let ?g = "\<Sum>m\<leftarrow>?es. (case select_gpa_value d u (grade m) of None \<Rightarrow> 0 | Some v \<Rightarrow> v)
                      * credit_hours m"
  let ?c = "\<Sum>m\<leftarrow>?es. credit_hours m"
  have val: "calculate_gpa d u sem = Inr (if ?c = 0 then 0 else round_half_away_div ?g ?c)"
    using assms(1) True assms(2) by (rule calculate_gpa_value)
  show ?thesis
  proof (cases "?c = 0")
    case c: True
    with val True show ?thesis
      by (simp add: reference_gpa_def Let_def decimal_of_def)
  next
    case c: False
    have "decimal_of (round_half_away_div ?g ?c)
          = round_half_away_2 (rat_of_int ?g / 100 / rat_of_int ?c)"
      unfolding decimal_of_def using c by (rule round_half_away_div_rat)
    with val c True show ?thesis
      by (simp add: reference_gpa_def Let_def grade_points_sum)
  qed
qed

text \<open>
  C1 at three credits of 4.00 and four credits of 3.00: the code returns 3.43, and so
  does the reference.
\<close>

theorem calculate_gpa_reference_witness:
  "schema_ok db_weighted \<and> calculate_gpa db_weighted 1 None = Inr 343
   \<and> reference_gpa db_weighted 1 None = 343 / 100"
  using calculate_gpa_reference [OF schema_ok_weighted credits_nonneg_weighted]
    calculate_gpa_weighted schema_ok_weighted credits_fit_weighted
  by (simp add: decimal_of_def)

text \<open>
  C1 as stated fails where the credit hours of two graded modules add up to \<open>2\<^sup>3\<^sup>1\<close>:
  the reference value is 4.00 and the code raises.
\<close>

theorem calculate_gpa_reference_counterexample:
  "schema_ok db_overflow \<and> calculate_gpa db_overflow 1 None = Inl Integer_out_of_range
   \<and> reference_gpa db_overflow 1 None = 4"
  by code_simp

text \<open>
  The assumption on the credit hours is needed as well. With credit hours of both signs
  the quotient of the totals can be large while the credit total is small; the store
  then keeps the quotient to eight places only, and rounding that to two places differs
  from rounding the quotient itself: 101002335.53 against 101002335.52.
\<close>

lemma large_quotient_rounded_twice:
  "schema_ok db_large_quotient
   \<and> credits_fit 0 (map credit_hours (eligible_modules db_large_quotient 1 None))
   \<and> numeric_div 10100243652733552 1000001 = (10100233552500000, 8)
   \<and> calculate_gpa db_large_quotient 1 None = Inr 10100233553
   \<and> reference_gpa db_large_quotient 1 None = 10100233552 / 100"
proof -
  have "numeric_div 10100243652733552 1000001 = (10100233552500000, 8)" by code_simp
  then show ?thesis
    using schema_ok_large credits_fit_large calculate_gpa_large reference_gpa_large
    by (simp only: simp_thms)
qed

text \<open>
  C2, as the code has it: when the credit hours of the eligible modules add up to zero
  and their running total stays within the \<^verbatim>\<open>INTEGER\<close> range, \<open>calculate_gpa\<close>
  returns 0.00 and raises nothing.
\<close>

theorem zero_credits_gpa:
  assumes "schema_ok d"
    and "credits_fit 0 (map credit_hours (eligible_modules d u sem))"
    and "(\<Sum>m\<leftarrow>eligible_modules d u sem. credit_hours m) = 0"
  shows "calculate_gpa d u sem = Inr 0"
  using assms(3) by (simp add: calculate_gpa_def loop_result [OF assms(1,2)])

text \<open>C2 where the only module is dropped.\<close>

theorem zero_credits_gpa_witness:
  "schema_ok db_dropped \<and> eligible_modules db_dropped 1 None = []
   \<and> calculate_gpa db_dropped 1 None = Inr 0"
proof -
  have 1: "schema_ok db_dropped" by code_simp
  have 2: "eligible_modules db_dropped 1 None = []" by code_simp
  have "calculate_gpa db_dropped 1 None = Inr 0"
    using 2 by (intro zero_credits_gpa [OF 1]) simp_all
  with 1 2 show ?thesis by simp
qed

text \<open>
  C2 as stated fails where the eligible credit hours add up to zero only after the
  running total has left the \<^verbatim>\<open>INTEGER\<close> range: the reference value is 0.00 and the
  code raises.
\<close>

theorem zero_credits_gpa_counterexample:
  "schema_ok db_cancel \<and> (\<Sum>m\<leftarrow>eligible_modules db_cancel 1 None. credit_hours m) = 0
   \<and> reference_gpa db_cancel 1 None = 0
   \<and> calculate_gpa db_cancel 1 None = Inl Integer_out_of_range"
  by code_simp

text \<open>
  The running total stays within the range in the cases that the specification names:
  with no eligible module at all (no modules, all of them dropped, no grade in the
  scale), and with credit hours that are never negative and add up to zero.
\<close>

lemma no_eligible_gpa:
  assumes "schema_ok d" and "eligible_modules d u sem = []"
  shows "calculate_gpa d u sem = Inr 0"
proof -
  have "credits_fit 0 (map credit_hours (eligible_modules d u sem))"
    using assms(2) by simp
  from loop_result [OF assms(1) this] assms(2) show ?thesis
    by (simp add: calculate_gpa_def)
qed

lemma no_modules_eligible: "modules d = [] \<Longrightarrow> eligible_modules d u sem = []"
  by (simp add: eligible_modules_def)

lemma all_dropped_eligible:
  "\<forall>m\<in>set (modules d). m_attempt_type m = Dropped \<Longrightarrow> eligible_modules d u sem = []"
  by (auto simp: eligible_modules_def filter_empty_conv)

lemma no_grade_eligible:
  "\<forall>m\<in>set (modules d). grade m \<notin> set (user_labels u (grading_criteria d))
   \<Longrightarrow> eligible_modules d u sem = []"
  by (auto simp: eligible_modules_def filter_empty_conv mapped_scale select_none_labels)

lemma nonneg_zero_fit:
  "\<forall>c\<in>set cs. 0 \<le> c \<Longrightarrow> sum_list cs = 0 \<Longrightarrow> credits_fit 0 cs"
proof (induction cs)
  case Nil
  show ?case by simp
next
  case (Cons c cs)
  have "0 \<le> sum_list cs" using Cons.prems(1) by (intro sum_list_nonneg) simp
  with Cons.prems have "c = 0" "sum_list cs = 0" by auto
  with Cons show ?case by (simp add: int4_ok_def)
qed

text \<open>
  C3: a module whose attempt type is dropped, put anywhere into the table of modules,
  leaves the result of \<open>calculate_gpa\<close> as it is, whatever its credit hours and grade.
\<close>

theorem dropped_module_ignored:
  assumes "m_attempt_type x = Dropped"
  shows "calculate_gpa (d\<lparr>modules := xs @ x # ys\<rparr>) u sem
         = calculate_gpa (d\<lparr>modules := xs @ ys\<rparr>) u sem"
proof -
  have "\<not> gpa_where u sem x" using assms by (simp add: gpa_where_def)
  then have "gpa_query (d\<lparr>modules := xs @ x # ys\<rparr>) u sem
             = gpa_query (d\<lparr>modules := xs @ ys\<rparr>) u sem"
    by (simp add: query_insert query_append)
  moreover have "gpa_loop (d\<lparr>modules := xs @ x # ys\<rparr>) u ms acc
                 = gpa_loop (d\<lparr>modules := xs @ ys\<rparr>) u ms acc" for ms acc
    by (rule gpa_loop_tables) simp
  ultimately show ?thesis by (simp add: calculate_gpa_def)
qed

text \<open>C3 with a dropped module of 5 credits between the two modules of the example.\<close>

theorem dropped_module_ignored_witness:
  "m_attempt_type (module_of 5 ''A'' Dropped) = Dropped
   \<and> calculate_gpa (db_weighted\<lparr>modules := [module_of 3 ''A'' First_attempt]
        @ module_of 5 ''A'' Dropped # [module_of 4 ''B'' Repeat]\<rparr>) 1 None = Inr 343"
proof -
  have 1: "m_attempt_type (module_of 5 ''A'' Dropped) = Dropped" by (simp add: module_of_def)
  have 2: "calculate_gpa (db_weighted\<lparr>modules := [module_of 3 ''A'' First_attempt]
        @ [module_of 4 ''B'' Repeat]\<rparr>) 1 None = Inr 343" by code_simp
  show ?thesis
    using dropped_module_ignored [OF 1, where d = db_weighted
        and xs = "[module_of 3 ''A'' First_attempt]" and ys = "[module_of 4 ''B'' Repeat]"
        and u = 1 and sem = None] 1 2
    by (simp only: simp_thms)
qed

text \<open>
  C4: a module whose grade has no entry in the user's grading scale, put anywhere into
  the table of modules, leaves the result of \<open>calculate_gpa\<close> as it is. The lookup
  yields \<^verbatim>\<open>NULL\<close> for it also after a module that was found.
\<close>

theorem unmapped_module_ignored:
  assumes "grade x \<notin> set (user_labels u (grading_criteria d))"
  shows "calculate_gpa (d\<lparr>modules := xs @ x # ys\<rparr>) u sem
         = calculate_gpa (d\<lparr>modules := xs @ ys\<rparr>) u sem"
proof -
  let ?d1 = "d\<lparr>modules := xs @ x # ys\<rparr>" and ?d2 = "d\<lparr>modules := xs @ ys\<rparr>"
  let ?P = "\<lambda>m. select_gpa_value d u (grade m) \<noteq> None"
  have tab: "gpa_loop ?d1 u ms acc = gpa_loop d u ms acc"
    "gpa_loop ?d2 u ms acc = gpa_loop d u ms acc" for ms acc
    by (rule gpa_loop_tables, simp)+
  have "select_gpa_value d u (grade x) = None"
    using assms by (simp add: select_none_labels)
  then have "filter ?P (gpa_query ?d1 u sem) = filter ?P (gpa_query ?d2 u sem)"
    by (simp add: query_insert query_append del: not_None_eq)
  then have "gpa_loop d u (gpa_query ?d1 u sem) (0, 0) = gpa_loop d u (gpa_query ?d2 u sem) (0, 0)"
    using gpa_loop_skip [of d u "gpa_query ?d1 u sem" "(0, 0)"]
      gpa_loop_skip [of d u "gpa_query ?d2 u sem" "(0, 0)"] by (simp only:)
  then show ?thesis by (simp only: calculate_gpa_def tab)
qed

text \<open>C4 with a module graded \<^verbatim>\<open>Z\<close> after the module graded \<^verbatim>\<open>A\<close>.\<close>

theorem unmapped_module_ignored_witness:
  "grade (module_of 5 ''Z'' First_attempt) \<notin> set (user_labels 1 (grading_criteria db_weighted))
   \<and> calculate_gpa (db_weighted\<lparr>modules := [module_of 3 ''A'' First_attempt]
        @ module_of 5 ''Z'' First_attempt # [module_of 4 ''B'' Repeat]\<rparr>) 1 None = Inr 343"
proof -
  have 1: "grade (module_of 5 ''Z'' First_attempt)
           \<notin> set (user_labels 1 (grading_criteria db_weighted))"
    by code_simp
  have 2: "calculate_gpa (db_weighted\<lparr>modules := [module_of 3 ''A'' First_attempt]
        @ [module_of 4 ''B'' Repeat]\<rparr>) 1 None = Inr 343" by code_simp
  show ?thesis
    using unmapped_module_ignored [OF 1, where xs = "[module_of 3 ''A'' First_attempt]"
        and ys = "[module_of 4 ''B'' Repeat]" and sem = None] 1 2
    by (simp only: simp_thms)
qed

text \<open>
  C7, as the code has it: on tables that meet the constraints of the migration, with no
  negative credit hours among the eligible modules and a running credit total within
  the \<^verbatim>\<open>INTEGER\<close> range, \<open>calculate_gpa\<close> returns a value. That value is at least
  0.00 when no eligible module carries a negative grade point. It is at most the
  largest grade point of the user's scale when that largest grade point is not negative
  or the eligible credit hours add up to more than zero. It is 0.00 when the scale is
  empty.
\<close>

theorem gpa_in_range:
  assumes "schema_ok d"
    and "credits_fit 0 (map credit_hours (eligible_modules d u sem))"
    and "\<forall>m\<in>set (eligible_modules d u sem). 0 \<le> credit_hours m"
  shows "\<exists>r. calculate_gpa d u sem = Inr r
           \<and> ((\<forall>m\<in>set (eligible_modules d u sem). 0 \<le> grade_point d u m) \<longrightarrow> 0 \<le> r)
           \<and> (scale_values d u = [] \<longrightarrow> r = 0)
           \<and> (scale_values d u \<noteq> []
                \<and> (0 \<le> Max (set (scale_values d u))
                    \<or> 0 < (\<Sum>m\<leftarrow>eligible_modules d u sem. credit_hours m))
               \<longrightarrow> r \<le> Max (set (scale_values d u)))"
proof -
  let ?es = "eligible_modules d u sem"
  let ?f = "\<lambda>m. case select_gpa_value d u (grade m) of None \<Rightarrow> 0 | Some v \<Rightarrow> v"
  let ?M = "Max (set (scale_values d u))"
  let ?g = "\<Sum>m\<leftarrow>?es. ?f m * credit_hours m"
  let ?c = "\<Sum>m\<leftarrow>?es. credit_hours m"
  let ?r = "if ?c = 0 then 0 else round_half_away_div ?g ?c"
  have val: "calculate_gpa d u sem = Inr ?r"
    using assms by (rule calculate_gpa_value)
  have c0: "0 \<le> ?c" using assms(3) by (intro sum_list_nonneg) auto
  have point: "grade_point d u m = rat_of_int (?f m) / 100" for m
    using select_gpa_value_scale [of d u "grade m", symmetric]
    by (cases "select_gpa_value d u (grade m)") (auto simp: grade_point_def)
  have lower: "0 \<le> ?r" if "\<forall>m\<in>set ?es. 0 \<le> grade_point d u m"
  proof (cases "?c = 0")
    case True
    then show ?thesis by simp
  next
    case False
    have "\<forall>m\<in>set ?es. 0 \<le> ?f m \<and> 0 \<le> credit_hours m"
      using that assms(3) by (simp add: point)
    then have "0 * ?c \<le> ?g" by (rule weighted_sum_ge)
    then have "0 \<le> round_half_away_div ?g ?c"
      using False c0 by (intro round_half_away_div_nonneg) simp_all
    with False show ?thesis by simp
  qed
  have empty: "?r = 0" if "scale_values d u = []"
  proof -
    have "?es = []"
    proof (rule ccontr)
      assume "?es \<noteq> []"
      then obtain m where "m \<in> set ?es" by (cases ?es) auto
      then obtain v where "select_gpa_value d u (grade m) = Some v"
        using eligible_select by blast
      then have "v \<in> set (scale_values d u)" by (rule select_in_scale)
      with that show False by simp
    qed
    then show ?thesis by simp
  qed
  have upper: "?r \<le> ?M" if "scale_values d u \<noteq> []" and "0 \<le> ?M \<or> 0 < ?c"
  proof (cases "?c = 0")
    case True
    with that(2) show ?thesis by simp
  next
    case False
    with c0 have cpos: "0 < ?c" by simp
    have "\<forall>m\<in>set ?es. ?f m \<le> ?M \<and> 0 \<le> credit_hours m"
    proof
      fix m assume m: "m \<in> set ?es"
      then obtain v where v: "select_gpa_value d u (grade m) = Some v"
        using eligible_select by blast
      then have "v \<in> set (scale_values d u)" by (rule select_in_scale)
      then have "v \<le> ?M" by simp
      with v m assms(3) show "?f m \<le> ?M \<and> 0 \<le> credit_hours m" by simp
    qed
    then have "?g \<le> ?M * ?c" by (rule weighted_sum_le)
    with cpos have "round_half_away_div ?g ?c \<le> ?M" by (rule round_half_away_div_le)
    with False show ?thesis by simp
  qed
  from val lower empty upper show ?thesis by blast
qed

text \<open>C7 on the weighted example: 3.43 lies between 0.00 and the largest grade point.\<close>

theorem gpa_in_range_witness:
  "schema_ok db_weighted \<and> calculate_gpa db_weighted 1 None = Inr 343
   \<and> (0::int) \<le> 343 \<and> (343::int) \<le> Max (set (scale_values db_weighted 1))"
proof -
  have 4: "\<forall>m\<in>set (eligible_modules db_weighted 1 None). 0 \<le> grade_point db_weighted 1 m"
    by code_simp
  have 5: "scale_values db_weighted 1 \<noteq> []" by code_simp
  have 6: "0 \<le> Max (set (scale_values db_weighted 1))" by code_simp
  show ?thesis
    using gpa_in_range [OF schema_ok_weighted credits_fit_weighted credits_nonneg_weighted]
      schema_ok_weighted calculate_gpa_weighted 4 5 6 by auto
qed

text \<open>
  C7 as stated fails on a scale whose only grade is worth \<^verbatim>\<open>-1.00\<close>: a module with
  that grade gives a GPA of \<^verbatim>\<open>-1.00\<close>.
\<close>

theorem gpa_in_range_counterexample:
  "schema_ok db_negative \<and> scale_values db_negative 1 = [- 100]
   \<and> calculate_gpa db_negative 1 None = Inr (- 100)"
  by code_simp

text \<open>
  The assumption on credit hours is needed as well: three credits at 4.00 and minus one
  credit at 0.00 give 6.00, above the largest grade point.
\<close>

lemma negative_credits_exceed_scale:
  "scale_values db_negative_credits 1 = [400, 0]
   \<and> calculate_gpa db_negative_credits 1 None = Inr 600"
  by code_simp

text \<open>
  On a scale with 4.00 and \<^verbatim>\<open>-1.00\<close> the upper bound holds although a grade point is
  negative: three credits at 4.00 and one at \<^verbatim>\<open>-1.00\<close> give 2.75.
\<close>

lemma mixed_scale_below_largest:
  "scale_values db_mixed 1 = [400, - 100] \<and> calculate_gpa db_mixed 1 None = Inr 275"
  by code_simp

section \<open>Claims about the current semester\<close>

text \<open>
  When the update succeeds, adding a semester marked current leaves that semester as the
  user's only current one if the insert succeeds, and none if the insert fails.
\<close>

lemma handleSubmit_exclusive:
  assumes "f_is_current formData"
  shows "current_semesters userId (snd (handleSubmit None insert_error new_id userId formData rows))
         = (case insert_error of
              None \<Rightarrow> [\<lparr>s_id = new_id, s_user_id = userId, semester_name = f_semester_name formData,
                        academic_year = f_academic_year formData, is_current = True\<rparr>]
            | Some e \<Rightarrow> [])"
proof -
  have "current_semesters userId (update_is_current_false userId rows) = []"
    by (induction rows) (auto simp: current_semesters_def update_is_current_false_def)
  then show ?thesis using assms
    by (auto simp: handleSubmit_def insert_semester_def current_semesters_def split: option.splits)
qed

text \<open>
  C5, on the code: the user has semester 1 as current and adds a semester marked
  current; the update fails and the insert succeeds. No error is reported, and the
  semesters 1 and 2 are both current afterwards.
\<close>

theorem handleSubmit_two_current:
  "fst (handleSubmit (Some (Error ''Failed to fetch'')) None 2 1 form_current [semester_fall])
     = None
   \<and> map s_id (current_semesters 1
        (snd (handleSubmit (Some (Error ''Failed to fetch'')) None 2 1 form_current
               [semester_fall])))
     = [1, 2]"
  by code_simp

section \<open>Claims about the grading scale\<close>

text \<open>
  C8, as the code has it: nothing keeps the labels of a user's scale distinct. After
  \<open>saveCriteria\<close> they are pairwise distinct exactly when they were before and, if the
  insert went through, the trimmed labels of the valid form lines are pairwise distinct
  and none of them was in the user's scale already.
\<close>

theorem saveCriteria_labels:
  "distinct (user_labels userId (snd (saveCriteria stored_value insert_error userId criteria rows)))
   \<longleftrightarrow> distinct (user_labels userId rows)
       \<and> (insert_error = None \<longrightarrow>
            distinct (new_labels criteria)
            \<and> set (user_labels userId rows) \<inter> set (new_labels criteria) = {})"
proof -
  have new: "user_labels userId (map (criteria_row stored_value userId) (filter valid_criteria criteria))
             = new_labels criteria"
    by (simp add: user_labels_def new_labels_def criteria_row_def comp_def)
  show ?thesis
  proof (cases "filter valid_criteria criteria = []")
    case True
    then show ?thesis by (simp add: saveCriteria_def new_labels_def)
  next
    case False
    show ?thesis
    proof (cases insert_error)
      case None
      have "user_labels userId (rows @ map (criteria_row stored_value userId)
                                         (filter valid_criteria criteria))
            = user_labels userId rows @ new_labels criteria"
        using new by (simp add: user_labels_def)
      with False None show ?thesis by (simp add: saveCriteria_def)
    next
      case (Some e)
      with False show ?thesis by (simp add: saveCriteria_def)
    qed
  qed
qed

text \<open>C8 on the default form and an empty table: the ten labels saved are distinct.\<close>

theorem saveCriteria_labels_witness:
  "fst (saveCriteria stored_example None 1 defaultCriteria []) = None
   \<and> distinct (user_labels 1 (snd (saveCriteria stored_example None 1 defaultCriteria [])))"
proof -
  have 1: "distinct (new_labels defaultCriteria)" by code_simp
  have 2: "fst (saveCriteria stored_example None 1 defaultCriteria []) = None" by code_simp
  show ?thesis
    using saveCriteria_labels [of 1 stored_example None defaultCriteria "[]"] 1 2
    by (simp add: user_labels_def)
qed

text \<open>
  C8 as stated fails on a form with the label \<^verbatim>\<open>A\<close> on two lines: the save succeeds
  and the user's scale holds the label twice.
\<close>

theorem saveCriteria_labels_counterexample:
  "fst (saveCriteria stored_example None 1 form_duplicate []) = None
   \<and> user_labels 1 (snd (saveCriteria stored_example None 1 form_duplicate [])) = [''A'', ''A'']"
  by code_simp

section \<open>Claims about the leaderboard\<close>

text \<open>Within one page the entries are in descending order of GPA.\<close>

lemma leaderboard_within_page_descending:
  assumes "loadLeaderboard rpc countError error data = Inr board"
  shows "sorted (rev (map gpa board))"
proof -
  from assms have "board = sort_key (\<lambda>e. - gpa e)
      (map (entry_with_gpa rpc) (case data of None \<Rightarrow> [] | Some rows \<Rightarrow> rows))"
    by (auto simp: loadLeaderboard_def split: option.splits)
  then have "sorted (map (\<lambda>e. - gpa e) board)" by simp
  then show ?thesis
    by (induction board) (auto simp: sorted_append)
qed

text \<open>Three profiles with 3.80, 2.10 and 3.95 are shown as 3.95, 3.80, 2.10.\<close>

lemma leaderboard_example:
  "map_sum id (map gpa)
     (loadLeaderboard rpc_example None None (Some [student 1, student 2, student 3]))
   = Inr [395, 380, 210]"
  by code_simp

text \<open>
  With the policies of the migration in force every query on \<^verbatim>\<open>profiles\<close> by a
  signed-in user raises, so the page never gets a profile and renders no row.
\<close>

lemma select_profiles_raises:
  "select_profiles auth_uid d wh = Inl Infinite_recursion_in_policy"
  by (simp add: select_profiles_def policy_recursion_def select_policy_queries_def)

lemma leaderboard_rendered_empty: "leaderboard_rendered auth_uid d page = []"
  by (simp add: leaderboard_rendered_def select_profiles_raises loadProfile_def)

text \<open>
  C6, on the code: Ann, Ben and Cem study the same course and have the cumulative GPAs
  3.80, 2.10 and 3.95. The page that Ann opens renders no row, and \<open>get_leaderboard\<close>
  returns the three in the order of their names, 3.80, 2.10, 3.95.
\<close>

theorem leaderboard_not_by_gpa:
  "schema_ok db_three
   \<and> map (\<lambda>p. (full_name p, calculate_gpa db_three (pr_user_id p) None)) (profiles db_three)
     = [(''Cem'', Inr 395), (''Ann'', Inr 380), (''Ben'', Inr 210)]
   \<and> leaderboard_rendered 1 db_three 1 = []
   \<and> map_sum id (map (\<lambda>r. (lb_full_name r, lb_gpa r))) (get_leaderboard db_three ''U'' ''C'' 10 0)
     = Inr [(''Ann'', 380), (''Ben'', 210), (''Cem'', 395)]"
  by code_simp

text \<open>
  C10: a profile of the page whose GPA response is \<^verbatim>\<open>null\<close> is kept with a GPA of 0,
  no error is raised for it, the page has as many entries as the query returned, and
  the entries are in descending order of GPA, so that the profile is ranked as 0.00.
\<close>

theorem null_gpa_ranked_zero:
  assumes "rpc (pr_user_id entry) = None" and "entry \<in> set rows"
  shows "\<exists>board. loadLeaderboard rpc None None (Some rows) = Inr board
           \<and> with_gpa entry 0 \<in> set board \<and> length board = length rows
           \<and> sorted (rev (map gpa board))"
proof -
  let ?board = "sort_key (\<lambda>e. - gpa e) (map (entry_with_gpa rpc) rows)"
  have load: "loadLeaderboard rpc None None (Some rows) = Inr ?board"
    by (simp add: loadLeaderboard_def)
  have "entry_with_gpa rpc entry = with_gpa entry 0"
    using assms(1) by (simp add: entry_with_gpa_def)
  then have "with_gpa entry 0 \<in> set (map (entry_with_gpa rpc) rows)"
    using assms(2) by (metis image_eqI set_map)
  then have "with_gpa entry 0 \<in> set ?board" by simp
  moreover have "length ?board = length rows" by simp
  moreover have "sorted (rev (map gpa ?board))"
    using load by (rule leaderboard_within_page_descending)
  ultimately show ?thesis using load by blast
qed

text \<open>
  C10 for two students, the first with a \<^verbatim>\<open>null\<close> response and the second with 3.50:
  the first is listed second, with 0.00.
\<close>

theorem null_gpa_ranked_zero_witness:
  "rpc_null_first (pr_user_id (student 1)) = None \<and> student 1 \<in> set [student 1, student 2]
   \<and> loadLeaderboard rpc_null_first None None (Some [student 1, student 2])
     = Inr [with_gpa (student 2) 350, with_gpa (student 1) 0]
   \<and> (\<exists>board. loadLeaderboard rpc_null_first None None (Some [student 1, student 2]) = Inr board
         \<and> with_gpa (student 1) 0 \<in> set board \<and> length board = length [student 1, student 2]
         \<and> sorted (rev (map gpa board)))"
proof -
  have 1: "rpc_null_first (pr_user_id (student 1)) = None" by code_simp
  have 2: "student 1 \<in> set [student 1, student 2]" by simp
  have 3: "loadLeaderboard rpc_null_first None None (Some [student 1, student 2])
     = Inr [with_gpa (student 2) 350, with_gpa (student 1) 0]" by code_simp
  from null_gpa_ranked_zero [of rpc_null_first "student 1" "[student 1, student 2]", OF 1 2] 1 2 3
  show ?thesis by blast
qed

section \<open>Claims about row ownership\<close>

text \<open>
  C9, on the code: user 1 and user 2 study at different universities. Two databases
  that differ only in the modules, semesters and grading scale of user 2 give user 1
  the same rows from every table, yet the procedure called by user 1 for user 2 returns
  4.00 on one and 0.00 on the other.
\<close>

theorem rpc_reveals_other_user:
  "select_modules 1 db_other_graded = select_modules 1 db_other_empty
   \<and> select_grading_criteria 1 db_other_graded = select_grading_criteria 1 db_other_empty
   \<and> select_semesters 1 db_other_graded = select_semesters 1 db_other_empty
   \<and> profiles db_other_graded = profiles db_other_empty
   \<and> university_name profile_other \<noteq> university_name profile_requester
   \<and> rpc_calculate_gpa 1 db_other_graded 2 None = Inr 400
   \<and> rpc_calculate_gpa 1 db_other_empty 2 None = Inr 0"
  by code_simp

end
